theory Spec2Isabelle
  imports Complex_Main
begin

section \<open>Tensors, failures and broadcasting\<close>

text \<open>
  The model follows \<^verbatim>\<open>src/model.py\<close>. Tensor entries are real numbers, a vector is a
  list and a matrix is the list of its rows, so a tensor of shape \<open>[B, H, T, D]\<close> is a
  four-fold nested list. A nested list with no rows carries no width: the model is exact
  for tensors all of whose dimensions are positive, and every counterexample below uses
  such tensors.

  A Python exception is a value of type \<open>error\<close>. \<open>NonFinite\<close> is not an exception: it marks
  a floating-point division by zero, whose result (\<open>nan\<close> or \<open>inf\<close>) no real number
  represents.
\<close>

datatype error = RuntimeError | ValueError | IndexError | ZeroDivisionError | NonFinite

type_synonym vec = "real list"
type_synonym mat = "real list list"

definition ebind :: "error + 'a \<Rightarrow> ('a \<Rightarrow> error + 'b) \<Rightarrow> error + 'b" where
  "ebind m f = (case m of Inl e \<Rightarrow> Inl e | Inr v \<Rightarrow> f v)"

fun sequence :: "(error + 'a) list \<Rightarrow> error + 'a list" where
  "sequence [] = Inr []"
| "sequence (r # rs) = ebind r (\<lambda>v. ebind (sequence rs) (\<lambda>vs. Inr (v # vs)))"

text \<open>
  Broadcasting along one axis, as torch does for an elementwise operation: the sizes are
  equal, or one of them is 1 and is repeated; anything else raises a RuntimeError.
\<close>

definition broadcast :: "('a \<Rightarrow> 'b \<Rightarrow> 'c) \<Rightarrow> 'a list \<Rightarrow> 'b list \<Rightarrow> error + 'c list" where
  "broadcast f xs ys =
     (if length xs = length ys then Inr (map2 f xs ys)
      else if length ys = 1 then Inr (map (\<lambda>x. f x (hd ys)) xs)
      else if length xs = 1 then Inr (map (f (hd xs)) ys)
      else Inl RuntimeError)"

definition tensor_op :: "(real \<Rightarrow> real \<Rightarrow> real) \<Rightarrow> mat \<Rightarrow> mat \<Rightarrow> error + mat" where
  "tensor_op f X Y = ebind (broadcast (broadcast f) X Y) sequence"

text \<open>\<^verbatim>\<open>a, b = x.chunk(2, dim=-1)\<close>: chunks of size \<open>ceil(D / 2)\<close>; a last dimension of
  size 1 gives a single chunk and the tuple assignment raises ValueError.\<close>

definition chunk2 :: "vec \<Rightarrow> error + (vec \<times> vec)" where
  "chunk2 v =
     (let s = (length v + 1) div 2
      in if length v = 1 then Inl ValueError else Inr (take s v, drop s v))"

text \<open>\<^verbatim>\<open>torch.cat([a, b], dim=-1)\<close> on two matrices: the row counts must agree.\<close>

definition cat_last :: "mat \<Rightarrow> mat \<Rightarrow> error + mat" where
  "cat_last a b = (if length a = length b then Inr (map2 (@) a b) else Inl RuntimeError)"

section \<open>Rotary encoder\<close>

text \<open>\<^verbatim>\<open>precompute_freqs_cis(dim, end, device, theta=10000.0)\<close>: the cosine and the sine of
  \<open>position * theta ** (-k / dim)\<close> for \<open>k = 0, 2, ...\<close> below \<open>dim\<close>.\<close>

definition precompute_freqs_cis :: "nat \<Rightarrow> nat \<Rightarrow> real \<Rightarrow> mat \<times> mat" where
  "precompute_freqs_cis dm en theta =
     (let freqs = map (\<lambda>j. 1 / (theta powr (real (2 * j) / real dm))) [0 ..< (dm + 1) div 2];
          t = map real [0 ..< en];
          freqs' = map (\<lambda>p. map (\<lambda>f. p * f) freqs) t
      in (map (map cos) freqs', map (map sin) freqs'))"

text \<open>
  \<^verbatim>\<open>apply_rope(x, y, freqs_cis)\<close> on the \<open>[T, D]\<close> slices of one batch item and one head.
  The sliced tables get two leading axes of size 1 (\<^verbatim>\<open>unsqueeze(0).unsqueeze(0)\<close>), which
  broadcast over batch and heads, so the sequence axis and the last axis decide whether the
  products are defined. The slice \<^verbatim>\<open>cos_freqs[:seq_len]\<close> is \<open>take\<close>: it is shorter than
  \<open>seq_len\<close> when the table is. \<^verbatim>\<open>type_as\<close> changes no value.
\<close>

definition apply_rope :: "mat \<Rightarrow> mat \<Rightarrow> mat \<times> mat \<Rightarrow> error + (mat \<times> mat)" where
  "apply_rope x y freqs_cis =
     (let (cos_freqs, sin_freqs) = freqs_cis;
          seq_len = length x;
          cos_seq = take seq_len cos_freqs;
          sin_seq = take seq_len sin_freqs
      in ebind (sequence (map chunk2 x)) (\<lambda>xc.
         ebind (sequence (map chunk2 y)) (\<lambda>yc.
         let x_real = map fst xc; x_imag = map snd xc;
             y_real = map fst yc; y_imag = map snd yc
         in ebind (tensor_op (*) x_real cos_seq) (\<lambda>xrc.
            ebind (tensor_op (*) x_imag sin_seq) (\<lambda>xis.
            ebind (tensor_op (-) xrc xis) (\<lambda>x_rotated_real.
            ebind (tensor_op (*) x_real sin_seq) (\<lambda>xrs.
            ebind (tensor_op (*) x_imag cos_seq) (\<lambda>xic.
            ebind (tensor_op (+) xrs xic) (\<lambda>x_rotated_imag.
            ebind (tensor_op (*) y_real cos_seq) (\<lambda>yrc.
            ebind (tensor_op (*) y_imag sin_seq) (\<lambda>yis.
            ebind (tensor_op (-) yrc yis) (\<lambda>y_rotated_real.
            ebind (tensor_op (*) y_real sin_seq) (\<lambda>yrs.
            ebind (tensor_op (*) y_imag cos_seq) (\<lambda>yic.
            ebind (tensor_op (+) yrs yic) (\<lambda>y_rotated_imag.
            ebind (cat_last x_rotated_real x_rotated_imag) (\<lambda>x_rotated.
            ebind (cat_last y_rotated_real y_rotated_imag) (\<lambda>y_rotated.
            Inr (x_rotated, y_rotated))))))))))))))))))"

text \<open>
  The rotation as the specification words it, for one position: the vector is split into a
  real and an imaginary half, and \<open>rotated_real = real * cos - imag * sin\<close>,
  \<open>rotated_imag = real * sin + imag * cos\<close>. \<open>spec_rope_at\<close> rotates row \<open>i\<close> of a
  matrix with the table row of position \<open>ps ! i\<close>.
\<close>

definition spec_rotate_row :: "vec \<Rightarrow> vec \<Rightarrow> vec \<Rightarrow> vec" where
  "spec_rotate_row cs sn v =
     (let h = length v div 2; re = take h v; im = drop h v
      in map (\<lambda>j. re ! j * cs ! j - im ! j * sn ! j) [0 ..< h] @
         map (\<lambda>j. re ! j * sn ! j + im ! j * cs ! j) [0 ..< h])"

definition spec_rope_at :: "mat \<times> mat \<Rightarrow> nat list \<Rightarrow> mat \<Rightarrow> mat" where
  "spec_rope_at freqs_cis ps x =
     map2 (\<lambda>p v. spec_rotate_row (fst freqs_cis ! p) (snd freqs_cis ! p) v) ps x"

definition shape :: "nat \<Rightarrow> nat \<Rightarrow> 'a list list \<Rightarrow> bool" where
  "shape T D m \<longleftrightarrow> length m = T \<and> list_all (\<lambda>r. length r = D) m"

section \<open>Layers of the numeric library\<close>

text \<open>
  The layers below belong to torch; they are written out over the reals from their
  documentation. \<open>Linear\<close> is \<^verbatim>\<open>nn.Linear(..., bias=False)\<close> on one vector: the weight has one
  row per output feature. The constructor of the module fixes the shape of every weight, and
  \<open>forward\<close> below rejects an input whose channel width is not \<open>n_embd\<close>, so the operands of
  every product have equal lengths.
\<close>

definition Linear :: "mat \<Rightarrow> vec \<Rightarrow> vec" where
  "Linear W v = map (\<lambda>w. sum_list (map2 (*) w v)) W"

text \<open>\<^verbatim>\<open>nn.RMSNorm(d, eps)\<close>: \<open>x / sqrt(mean(x^2) + eps) * weight\<close>.\<close>

definition RMSNorm :: "real \<Rightarrow> vec \<Rightarrow> vec \<Rightarrow> vec" where
  "RMSNorm eps weight v =
     map2 (\<lambda>a g. a / sqrt (sum_list (map (\<lambda>b. b * b) v) / real (length v) + eps) * g) v weight"

definition softmax :: "vec \<Rightarrow> vec" where
  "softmax v = map (\<lambda>a. exp a / sum_list (map exp v)) v"

text \<open>Dropout of one entry. \<open>keep\<close> is the random draw for that entry; with \<open>p = 0\<close> every
  entry is kept.\<close>

definition dropout_elem :: "real \<Rightarrow> bool \<Rightarrow> real \<Rightarrow> real" where
  "dropout_elem p keep a = (if p = 0 then a else if keep then a / (1 - p) else 0)"

text \<open>
  \<^verbatim>\<open>torch.topk(input, k, dim=-1)\<close> on one row: the \<open>k\<close> largest entries in descending order
  and their indices; \<open>k\<close> beyond the row length raises. torch leaves the order of equal
  entries open; here the lowest index comes first. The facts proved below use only that the
  indices are distinct, in range and \<open>k\<close> in number.
\<close>

definition topk :: "vec \<Rightarrow> nat \<Rightarrow> error + (vec \<times> nat list)" where
  "topk xs k =
     (if k > length xs then Inl RuntimeError
      else let indices = take k (sort_key (\<lambda>i. - (xs ! i)) [0 ..< length xs])
           in Inr (map ((!) xs) indices, indices))"

text \<open>Advanced indexing \<^verbatim>\<open>x[batch_indices, indices]\<close> for one batch item.\<close>

definition gather :: "'a list \<Rightarrow> nat list \<Rightarrow> error + 'a list" where
  "gather x indices =
     (if list_all (\<lambda>i. i < length x) indices then Inr (map ((!) x) indices) else Inl IndexError)"

text \<open>\<^verbatim>\<open>t.view(B, T, H, D).transpose(1, 2)\<close> for one batch item: from \<open>[T, H * D]\<close> to
  \<open>[H, T, D]\<close>; and its inverse \<^verbatim>\<open>t.transpose(1, 2).contiguous().view(B, T, H * D)\<close>.\<close>

definition view_heads :: "nat \<Rightarrow> nat \<Rightarrow> mat \<Rightarrow> mat list" where
  "view_heads H D t = map (\<lambda>h. map (\<lambda>row. take D (drop (h * D) row)) t) [0 ..< H]"

definition merge_heads :: "nat \<Rightarrow> mat list \<Rightarrow> mat" where
  "merge_heads T t = map (\<lambda>i. concat (map (\<lambda>th. th ! i) t)) [0 ..< T]"

text \<open>
  \<^verbatim>\<open>F.scaled_dot_product_attention(q, k, v, is_causal, dropout_p)\<close> for one batch item and one
  head: scores \<open>q k\<^sup>T / sqrt(E)\<close>, the causal mask aligned at the top left (query \<open>i\<close> sees
  keys \<open>j \<le> i\<close>), softmax over the visible keys, dropout of the weights, weighted sum of the
  values. \<open>keep i j\<close> is the random draw for weight \<open>(i, j)\<close>.
\<close>

definition sdpa :: "bool \<Rightarrow> real \<Rightarrow> (nat \<Rightarrow> nat \<Rightarrow> bool) \<Rightarrow> mat \<Rightarrow> mat \<Rightarrow> mat \<Rightarrow> mat" where
  "sdpa is_causal dropout_p keep q k v =
     map (\<lambda>i.
       let qi = q ! i;
           S = length k;
           visible = (\<lambda>j. \<not> is_causal \<or> j \<le> i);
           score = (\<lambda>j. sum_list (map2 (*) qi (k ! j)) / sqrt (real (length qi)));
           z = sum_list (map (\<lambda>j. if visible j then exp (score j) else 0) [0 ..< S]);
           attn_weight = (\<lambda>j. if visible j then exp (score j) / z else 0);
           dropped = (\<lambda>j. dropout_elem dropout_p (keep i j) (attn_weight j))
       in map (\<lambda>d. sum_list (map (\<lambda>j. dropped j * v ! j ! d) [0 ..< S]))
            [0 ..< (case v of [] \<Rightarrow> 0 | r # _ \<Rightarrow> length r)])
     [0 ..< length q]"

text \<open>Slice assignment \<^verbatim>\<open>dst[a:b] = src\<close> along one axis: the source has the size of the slice,
  or size 1 and is repeated; anything else raises.\<close>

definition slice_assign :: "'a list \<Rightarrow> nat \<Rightarrow> nat \<Rightarrow> 'a list \<Rightarrow> error + 'a list" where
  "slice_assign dst a b src =
     (let n = length dst; lo = min a n; hi = max lo (min b n)
      in if length src = hi - lo then Inr (take lo dst @ src @ drop hi dst)
         else if length src = 1 then Inr (take lo dst @ replicate (hi - lo) (hd src) @ drop hi dst)
         else Inl RuntimeError)"

section \<open>The attention module\<close>

text \<open>
  The dictionary \<^verbatim>\<open>config\<close>. The four optional keys are the ones \<^verbatim>\<open>Attn.__init__\<close> reads with
  \<^verbatim>\<open>config.get(key, default)\<close>; the dictionary of the source has none of them. Sizes and
  counts are natural numbers.
\<close>

datatype ffn_type = mlp | moe

record config =
  n_embd :: nat
  n_head :: nat
  n_layer :: nat
  n_experts :: nat
  dropout :: real
  vocab_size :: nat
  ctx_len :: nat
  init_moe_scaling :: real
  ffn_types :: "ffn_type list"
  rms_norm_eps :: "real option"
  block_size :: "nat option"
  window_size :: "nat option"
  num_tokens_to_keep :: "nat option"

definition source_config :: config where
  "source_config =
     \<lparr>n_embd = 256, n_head = 16, n_layer = 4, n_experts = 32, dropout = 2 / 10, vocab_size = 65,
      ctx_len = 2048, init_moe_scaling = 125 / 100, ffn_types = [mlp, moe, mlp, moe],
      rms_norm_eps = None, block_size = None, window_size = None, num_tokens_to_keep = None\<rparr>"

text \<open>
  The attributes of an \<^verbatim>\<open>Attn\<close> instance that \<open>forward\<close> only reads: the sizes, the
  learnable tensors and the rotary tables. \<open>block_compressor\<close> is the pair of weights of its
  two linear layers.
\<close>

record attn =
  n_embd :: nat
  n_head :: nat
  dropout :: real
  ctx_len :: nat
  rms_norm_eps :: real
  v_head_dim :: nat
  kv_lora_rank :: nat
  q_lora_rank :: nat
  rope_head_dim :: nat
  nope_head_dim :: nat
  value_dim :: nat
  nope_dim :: nat
  rope_dim :: nat
  lamb_v :: real
  block_size :: nat
  num_blocks :: nat
  window_size :: nat
  num_tokens_to_keep :: nat
  compress_q_linear :: mat
  q_norm :: vec
  decompress_q_nope :: mat
  decompress_q_rope :: mat
  compress_kv_linear :: mat
  kv_norm :: vec
  decompress_k_nope :: mat
  decompress_v_linear :: mat
  k_rope_linear :: mat
  importance_scorer :: mat
  selection_k :: mat
  selection_v :: mat
  window_k :: mat
  window_v :: mat
  block_compressor :: "mat \<times> mat"
  intra_block_pos_encoding :: mat
  branch_gate :: mat
  proj :: mat
  freqs_cis :: "mat \<times> mat"

text \<open>
  The attributes \<^verbatim>\<open>Attn.__init__\<close> assigns: the sizes come from the configuration and from
  constants, the rotary tables from \<open>precompute_freqs_cis\<close>. The initial values of the
  learnable tensors are random; they are taken from the argument \<open>w\<close>. (\<^verbatim>\<open>self.rope\<close> is
  constructed as well, and no method of \<^verbatim>\<open>Attn\<close> uses it.)
\<close>

definition Attn_attributes :: "config \<Rightarrow> attn \<Rightarrow> attn" where
  "Attn_attributes cfg w =
     w\<lparr>n_embd := config.n_embd cfg,
       n_head := config.n_head cfg,
       dropout := config.dropout cfg,
       ctx_len := config.ctx_len cfg,
       rms_norm_eps := (case config.rms_norm_eps cfg of None \<Rightarrow> 1 / 1000000 | Some e \<Rightarrow> e),
       v_head_dim := 32,
       kv_lora_rank := 32,
       q_lora_rank := 3 * 32,
       rope_head_dim := 64,
       nope_head_dim := 32,
       value_dim := config.n_head cfg * 32,
       nope_dim := config.n_head cfg * 32,
       rope_dim := config.n_head cfg * 64,
       lamb_v := 1 / 2,
       block_size := (case config.block_size cfg of None \<Rightarrow> 16 | Some b \<Rightarrow> b),
       num_blocks := config.ctx_len cfg div (case config.block_size cfg of None \<Rightarrow> 16 | Some b \<Rightarrow> b),
       window_size := (case config.window_size cfg of None \<Rightarrow> 128 | Some s \<Rightarrow> s),
       num_tokens_to_keep :=
         (case config.num_tokens_to_keep cfg of None \<Rightarrow> config.ctx_len cfg div 4 | Some k \<Rightarrow> k),
       freqs_cis := precompute_freqs_cis 64 (config.ctx_len cfg) 10000\<rparr>"

text \<open>\<^verbatim>\<open>Attn.__init__\<close>: the integer division \<^verbatim>\<open>ctx_len // block_size\<close> raises for a block size
  of 0, and \<^verbatim>\<open>nn.Dropout\<close> raises for a probability outside \<open>[0, 1]\<close>.\<close>

definition Attn_init :: "config \<Rightarrow> attn \<Rightarrow> error + attn" where
  "Attn_init cfg w =
     (if config.block_size cfg = Some 0 then Inl ZeroDivisionError
      else if config.dropout cfg < 0 \<or> 1 < config.dropout cfg then Inl ValueError
      else Inr (Attn_attributes cfg w))"

text \<open>The shapes \<^verbatim>\<open>Attn.__init__\<close> gives the learnable tensors that the branches read.\<close>

definition weight_shapes :: "attn \<Rightarrow> bool" where
  "weight_shapes m \<longleftrightarrow>
     shape (q_lora_rank m) (n_embd m) (compress_q_linear m) \<and>
     length (q_norm m) = q_lora_rank m \<and>
     shape (nope_dim m) (q_lora_rank m) (decompress_q_nope m) \<and>
     shape (rope_dim m) (q_lora_rank m) (decompress_q_rope m) \<and>
     shape (kv_lora_rank m) (n_embd m) (compress_kv_linear m) \<and>
     length (kv_norm m) = kv_lora_rank m \<and>
     shape (nope_dim m) (kv_lora_rank m) (decompress_k_nope m) \<and>
     shape (value_dim m) (kv_lora_rank m) (decompress_v_linear m) \<and>
     shape (rope_head_dim m) (n_embd m) (k_rope_linear m) \<and>
     shape 1 (n_embd m) (importance_scorer m) \<and>
     shape (n_head m * (rope_head_dim m + nope_head_dim m)) (n_embd m) (selection_k m) \<and>
     shape (value_dim m) (n_embd m) (selection_v m) \<and>
     shape (n_head m * (rope_head_dim m + nope_head_dim m)) (n_embd m) (window_k m) \<and>
     shape (value_dim m) (n_embd m) (window_v m) \<and>
     shape 3 (n_embd m) (branch_gate m) \<and>
     shape (n_embd m) (value_dim m) (proj m)"

text \<open>The state that \<open>forward\<close> mutates: the inference cache of the global branch, of shape
  \<open>[B, n_head, ctx_len, head_dim]\<close>, and its fill pointer.\<close>

record attn_cache =
  k_cache :: "mat list list option"
  v_cache :: "mat list list option"
  cache_filled :: nat

definition initial_cache :: attn_cache where
  "initial_cache = \<lparr>k_cache = None, v_cache = None, cache_filled = 0\<rparr>"

text \<open>The random draws of one call: the dropout masks of the three attention calls, indexed
  by batch item, head, query and key, and the mask of \<^verbatim>\<open>res_dropout\<close>.\<close>

record draws =
  attn_keep_1 :: "nat \<Rightarrow> nat \<Rightarrow> nat \<Rightarrow> nat \<Rightarrow> bool"
  attn_keep_2 :: "nat \<Rightarrow> nat \<Rightarrow> nat \<Rightarrow> nat \<Rightarrow> bool"
  attn_keep_3 :: "nat \<Rightarrow> nat \<Rightarrow> nat \<Rightarrow> nat \<Rightarrow> bool"
  res_keep :: "nat \<Rightarrow> nat \<Rightarrow> nat \<Rightarrow> bool"

subsection \<open>Token compression, token selection and the sliding window\<close>

text \<open>
  \<^verbatim>\<open>Attn._compress_tokens\<close>, for one batch item. It is the only reader of \<open>block_compressor\<close>
  and \<open>intra_block_pos_encoding\<close>. \<^verbatim>\<open>nn.GELU\<close> is the argument \<open>gelu\<close>. A block size of 0
  makes the integer division raise.
\<close>

definition compress_tokens :: "(real \<Rightarrow> real) \<Rightarrow> attn \<Rightarrow> mat \<Rightarrow> error + mat" where
  "compress_tokens gelu m x =
     (let T = length x; C = (case x of [] \<Rightarrow> 0 | r # _ \<Rightarrow> length r) in
      if block_size m = 0 then Inl ZeroDivisionError
      else
        let padded_len = ((T + block_size m - 1) div block_size m) * block_size m;
            x_padded = (if padded_len > T then x @ replicate (padded_len - T) (replicate C 0) else x);
            blocks = map (\<lambda>i. take (block_size m) (drop (i * block_size m) x_padded))
                       [0 ..< padded_len div block_size m]
        in ebind (sequence (map (\<lambda>blk. tensor_op (+) blk (intra_block_pos_encoding m)) blocks))
             (\<lambda>pos_encoded_blocks.
                let blocks_flat = map concat pos_encoded_blocks
                in Inr (map (\<lambda>b. Linear (snd (block_compressor m))
                                   (map gelu (Linear (fst (block_compressor m)) b))) blocks_flat)))"

text \<open>
  \<^verbatim>\<open>Attn._select_important_tokens\<close>, for one batch item: \<open>importance_scores\<close> has shape
  \<open>[T, 1]\<close> and \<^verbatim>\<open>squeeze(-1)\<close> flattens it.
\<close>

definition select_important_tokens :: "attn \<Rightarrow> mat \<Rightarrow> mat \<Rightarrow> error + (mat \<times> nat list)" where
  "select_important_tokens m x importance_scores =
     (let T = length x
      in ebind (topk (concat importance_scores) (min (num_tokens_to_keep m) T))
           (\<lambda>(_, indices).
              let indices' = sort indices
              in ebind (gather x indices') (\<lambda>selected_tokens. Inr (selected_tokens, indices'))))"

text \<open>
  \<^verbatim>\<open>Attn._get_sliding_window_tokens\<close>, for one batch item. \<open>current_pos\<close> is an optional Python
  integer. The slice \<^verbatim>\<open>x[:, window_start:window_end]\<close> is empty when the start is not below
  the end.
\<close>

definition get_sliding_window_tokens :: "attn \<Rightarrow> bool \<Rightarrow> mat \<Rightarrow> int option \<Rightarrow> mat" where
  "get_sliding_window_tokens m training x current_pos =
     (case current_pos of
        None \<Rightarrow> x
      | Some pos \<Rightarrow>
          if training then x
          else
            let T = length x;
                window_start = nat (max 0 (pos - int (window_size m div 2)));
                window_end = min T (window_start + window_size m)
            in take (window_end - window_start) (drop window_start x))"

subsection \<open>The blocks of \<open>forward\<close>\<close>

text \<open>
  Each block of \<^verbatim>\<open>Attn.forward\<close> is a function of one batch item \<open>x\<close> of shape \<open>[T, C]\<close>;
  tensors with a head axis are lists of matrices \<open>[H, T, D]\<close>. \<open>apply_rope\<close> is called once per
  head, which gives the same result and the same failures as the single call on the whole
  tensor.

  Lines 213 to 224, the queries. Writing the two parts into the slices \<^verbatim>\<open>[..., :nope]\<close> and
  \<^verbatim>\<open>[..., nope:]\<close> of an empty tensor concatenates them.
\<close>

definition queries :: "attn \<Rightarrow> mat \<Rightarrow> error + mat list" where
  "queries m x =
     (let compressed_q = map (Linear (compress_q_linear m)) x;
          norm_q = map (RMSNorm (rms_norm_eps m) (q_norm m)) compressed_q;
          query_nope = view_heads (n_head m) (nope_head_dim m)
                         (map (Linear (decompress_q_nope m)) norm_q);
          query_rope = view_heads (n_head m) (rope_head_dim m)
                         (map (Linear (decompress_q_rope m)) norm_q)
      in ebind (sequence (map (\<lambda>t. ebind (apply_rope t t (freqs_cis m)) (\<lambda>(q_rope, _). Inr q_rope))
                            query_rope))
           (\<lambda>q_rope. Inr (map2 (map2 (@)) query_nope q_rope)))"

text \<open>
  Line 226, \<^verbatim>\<open>F.softmax(self.branch_gate(x).mean(dim=1), dim=-1)\<close>: the gate is applied to every
  token, \<^verbatim>\<open>mean(dim=1)\<close> averages over the positions of each batch item, and the softmax runs
  over the three branches. The mean of no positions is \<open>nan\<close>.
\<close>

definition mean_positions :: "mat \<Rightarrow> error + vec" where
  "mean_positions t =
     (case t of
        [] \<Rightarrow> Inl NonFinite
      | r # _ \<Rightarrow> Inr (map (\<lambda>j. sum_list (map (\<lambda>row. row ! j) t) / real (length t)) [0 ..< length r]))"

definition branch_weights :: "attn \<Rightarrow> mat list \<Rightarrow> (error + vec) list" where
  "branch_weights m x =
     map (\<lambda>gate. ebind (mean_positions gate) (\<lambda>g. Inr (softmax g)))
       (map (map (Linear (branch_gate m))) x)"

text \<open>Lines 229 to 250, the global branch: the keys and the values of all positions; \<open>v1\<close> is
  the value tensor of the first block, of the shape of \<open>value_1\<close>. The single rotary key is
  written into every head.\<close>

definition global_branch :: "attn \<Rightarrow> mat \<Rightarrow> mat list option \<Rightarrow> error + (mat list \<times> mat list)" where
  "global_branch m x v1 =
     (let compressed_kv = map (Linear (compress_kv_linear m)) x;
          norm_kv = map (RMSNorm (rms_norm_eps m) (kv_norm m)) compressed_kv;
          key_nope_1 = view_heads (n_head m) (nope_head_dim m)
                         (map (Linear (decompress_k_nope m)) norm_kv);
          value_1 = view_heads (n_head m) (v_head_dim m)
                      (map (Linear (decompress_v_linear m)) norm_kv);
          key_rope_1 = map (Linear (k_rope_linear m)) x;
          value_1' = (case v1 of
                        None \<Rightarrow> value_1
                      | Some v \<Rightarrow> map2 (map2 (map2 (\<lambda>a b. (1 - lamb_v m) * a + lamb_v m * b))) value_1 v);
          key_rope_1' = map (map (\<lambda>a. a / real (n_head m))) key_rope_1
      in ebind (apply_rope key_rope_1' key_rope_1' (freqs_cis m))
           (\<lambda>(_, k_rope_1). Inr (map (\<lambda>kn. map2 (@) kn k_rope_1) key_nope_1, value_1')))"

text \<open>Lines 260 to 264 and 273 to 277: the rotary part of the keys of every head is rotated
  and written back; the other part is kept.\<close>

definition rope_keys :: "attn \<Rightarrow> mat list \<Rightarrow> error + mat list" where
  "rope_keys m k =
     sequence (map (\<lambda>kh.
       let k_rope = map (drop (nope_head_dim m)) kh;
           k_nope = map (take (nope_head_dim m)) kh
       in ebind (apply_rope k_rope k_rope (freqs_cis m))
            (\<lambda>(_, k_rope'). Inr (map2 (@) k_nope k_rope'))) k)"

text \<open>Lines 253 to 259: the projections of the selected tokens, before the rotation.\<close>

definition selection_projections :: "attn \<Rightarrow> mat \<Rightarrow> mat list \<times> mat list" where
  "selection_projections m selected_tokens =
     (view_heads (n_head m) (rope_head_dim m + nope_head_dim m)
        (map (Linear (selection_k m)) selected_tokens),
      view_heads (n_head m) (v_head_dim m) (map (Linear (selection_v m)) selected_tokens))"

text \<open>Lines 252 to 264, the selection branch: keys, values and the selected indices.\<close>

definition selection_branch :: "attn \<Rightarrow> mat \<Rightarrow> error + (mat list \<times> mat list \<times> nat list)" where
  "selection_branch m x =
     (let importance_scores = map (Linear (importance_scorer m)) x
      in ebind (select_important_tokens m x importance_scores)
           (\<lambda>(selected_tokens, selected_indices).
              let (k_selected, v_selected) = selection_projections m selected_tokens
              in ebind (rope_keys m k_selected)
                   (\<lambda>k_selected'. Inr (k_selected', v_selected, selected_indices))))"

text \<open>Lines 266 to 277, the window branch. \<open>forward\<close> calls the window helper without a
  position.\<close>

definition window_branch :: "attn \<Rightarrow> bool \<Rightarrow> mat \<Rightarrow> error + (mat list \<times> mat list)" where
  "window_branch m training x =
     (let window_tokens = get_sliding_window_tokens m training x None;
          k_window = view_heads (n_head m) (rope_head_dim m + nope_head_dim m)
                       (map (Linear (window_k m)) window_tokens);
          v_window = view_heads (n_head m) (v_head_dim m) (map (Linear (window_v m)) window_tokens)
      in ebind (rope_keys m k_window) (\<lambda>k_window'. Inr (k_window', v_window)))"

subsection \<open>The inference cache\<close>

definition zeros :: "nat \<Rightarrow> nat \<Rightarrow> nat \<Rightarrow> nat \<Rightarrow> mat list list" where
  "zeros B H T D = replicate B (replicate H (replicate T (replicate D 0)))"

text \<open>\<^verbatim>\<open>cache[:, :, a:b] = src\<close>: the slice assignment along the position axis, for every batch
  item and head.\<close>

definition cache_write :: "mat list list \<Rightarrow> nat \<Rightarrow> nat \<Rightarrow> mat list list \<Rightarrow> error + mat list list" where
  "cache_write cache a b src =
     (if length cache \<noteq> length src then Inl RuntimeError
      else sequence (map2 (\<lambda>cb sb.
             if length cb \<noteq> length sb then Inl RuntimeError
             else sequence (map2 (\<lambda>row srow. slice_assign row a b srow) cb sb)) cache src))"

text \<open>
  Lines 287 to 296: the cache is allocated anew when it is missing or holds another batch
  size, then at most \<open>ctx_len - cache_filled\<close> of the \<open>T\<close> new positions are written and the
  fill pointer advances. \<open>k\<close> and \<open>v\<close> are \<^verbatim>\<open>k_recombined_1\<close> and \<^verbatim>\<open>value_1\<close>, of shape
  \<open>[B, n_head, T, D]\<close>.
\<close>

definition cache_update ::
  "attn \<Rightarrow> attn_cache \<Rightarrow> nat \<Rightarrow> nat \<Rightarrow> mat list list \<Rightarrow> mat list list \<Rightarrow> error + attn_cache" where
  "cache_update m c B T k v =
     (let c1 = (if k_cache c = None \<or> v_cache c = None \<or> map_option length (k_cache c) \<noteq> Some B
                then \<lparr>k_cache = Some (zeros B (n_head m) (ctx_len m) (rope_head_dim m + nope_head_dim m)),
                      v_cache = Some (zeros B (n_head m) (ctx_len m) (v_head_dim m)),
                      cache_filled = 0\<rparr>
                else c);
          new_cache_filled = min (cache_filled c1 + T) (ctx_len m);
          k_to_cache = map (map (take (new_cache_filled - cache_filled c1))) k;
          v_to_cache = map (map (take (new_cache_filled - cache_filled c1))) v
      in case (k_cache c1, v_cache c1) of
           (Some kc, Some vc) \<Rightarrow>
             ebind (cache_write kc (cache_filled c1) new_cache_filled k_to_cache) (\<lambda>kc'.
             ebind (cache_write vc (cache_filled c1) new_cache_filled v_to_cache) (\<lambda>vc'.
             Inr \<lparr>k_cache = Some kc', v_cache = Some vc', cache_filled = new_cache_filled\<rparr>))
         | _ \<Rightarrow> Inl RuntimeError)"

subsection \<open>\<open>forward\<close>\<close>

definition sdpa_heads ::
  "bool \<Rightarrow> real \<Rightarrow> (nat \<Rightarrow> nat \<Rightarrow> nat \<Rightarrow> bool) \<Rightarrow> mat list \<Rightarrow> mat list \<Rightarrow> mat list \<Rightarrow> mat list" where
  "sdpa_heads is_causal dropout_p keep q k v =
     map (\<lambda>h. sdpa is_causal dropout_p (keep h) (q ! h) (k ! h) (v ! h)) [0 ..< length q]"

text \<open>
  The blend of the three branch outputs of one batch item with its gate weights. For an
  item without positions the weights are \<open>nan\<close> and the outputs have no entry that they could
  multiply.
\<close>

definition blend :: "error + vec \<Rightarrow> mat list \<Rightarrow> mat list \<Rightarrow> mat list \<Rightarrow> mat list" where
  "blend weights output_1 output_2 output_3 =
     (case weights of
        Inl _ \<Rightarrow> map (\<lambda>_. []) output_1
      | Inr w \<Rightarrow>
          map2 (map2 (map2 (+)))
            (map2 (map2 (map2 (+)))
               (map (map (map (\<lambda>a. a * w ! 0))) output_1)
               (map (map (map (\<lambda>a. a * w ! 1))) output_2))
            (map (map (map (\<lambda>a. a * w ! 2))) output_3))"

text \<open>
  \<^verbatim>\<open>Attn.forward(x, v1)\<close> on a batch \<open>x\<close> of shape \<open>[B, T, C]\<close>, in training or inference mode,
  with the random draws \<open>dr\<close> and the cache \<open>c\<close>. It returns the output, \<^verbatim>\<open>value_1\<close> and the
  cache after the call. An input of another channel width than \<open>n_embd\<close> makes the first
  linear layer raise.
\<close>

definition forward ::
  "attn \<Rightarrow> bool \<Rightarrow> draws \<Rightarrow> attn_cache \<Rightarrow> mat list \<Rightarrow> mat list list option
     \<Rightarrow> error + ((mat list \<times> mat list list) \<times> attn_cache)" where
  "forward m training dr c x v1 =
     (let B = length x; T = (case x of [] \<Rightarrow> 0 | x0 # _ \<Rightarrow> length x0) in
      if \<not> list_all (list_all (\<lambda>tok. length tok = n_embd m)) x then Inl RuntimeError
      else
        ebind (sequence (map (queries m) x)) (\<lambda>q_recombined.
        let weights = branch_weights m x in
        ebind (sequence (map (\<lambda>b. global_branch m (x ! b) (map_option (\<lambda>v. v ! b) v1)) [0 ..< B]))
          (\<lambda>global.
        let k_recombined_1 = map fst global; value_1 = map snd global in
        ebind (sequence (map (selection_branch m) x)) (\<lambda>selected.
        ebind (sequence (map (window_branch m training) x)) (\<lambda>window.
        let attend = (\<lambda>dropout_p k1 v1_cache.
              map (\<lambda>b.
                let (k_selected, v_selected, _) = selected ! b;
                    (k_window, v_window) = window ! b;
                    output_1 = sdpa_heads True dropout_p (attn_keep_1 dr b)
                                 (q_recombined ! b) (k1 ! b) (v1_cache ! b);
                    output_2 = sdpa_heads False dropout_p (attn_keep_2 dr b)
                                 (q_recombined ! b) k_selected v_selected;
                    output_3 = sdpa_heads True dropout_p (attn_keep_3 dr b)
                                 (q_recombined ! b) k_window v_window
                in blend (weights ! b) output_1 output_2 output_3) [0 ..< B]);
            finish = (\<lambda>blended_output c'.
              let output = map (\<lambda>ob. map (Linear (proj m)) (merge_heads T ob)) blended_output;
                  output' = (if training
                             then map (\<lambda>b. map (\<lambda>t. map (\<lambda>j.
                                    dropout_elem (dropout m) (res_keep dr b t j) (output ! b ! t ! j))
                                    [0 ..< length (output ! b ! t)]) [0 ..< length (output ! b)])
                                    [0 ..< length output]
                             else output)
              in Inr ((output', value_1), c'))
        in if training
           then finish (attend (dropout m) k_recombined_1 value_1) (c\<lparr>cache_filled := 0\<rparr>)
           else
             ebind (cache_update m c B T k_recombined_1 value_1) (\<lambda>c'.
             case (k_cache c', v_cache c') of
               (Some kc, Some vc) \<Rightarrow>
                 finish (attend 0 (map (map (take (cache_filled c'))) kc)
                                  (map (map (take (cache_filled c'))) vc)) c'
             | _ \<Rightarrow> Inl RuntimeError))))))"

text \<open>A session: the calls of \<open>forward\<close> one after the other, each with its mode, draws, input
  and first-block values. A call that raises leaves the cache as it was: the queries and the
  three branches (lines 210 to 277), where the channel width of the input and the rotary
  encoder can raise, run before the first assignment to the cache, and on a constructed
  module the writes into a cache that the module has allocated itself do not raise.\<close>

type_synonym call = "bool \<times> draws \<times> mat list \<times> mat list list option"

fun run :: "attn \<Rightarrow> attn_cache \<Rightarrow> call list \<Rightarrow> attn_cache" where
  "run m c [] = c"
| "run m c ((training, dr, x, v1) # calls) =
     (case forward m training dr c x v1 of
        Inl _ \<Rightarrow> run m c calls
      | Inr (_, c') \<Rightarrow> run m c' calls)"

text \<open>An instance as the constructor builds it for a configuration, all of whose learnable
  tensors hold the same value \<open>a\<close>. The theorems below are instantiated with it.\<close>

definition constant_attn :: "config \<Rightarrow> real \<Rightarrow> attn" where
  "constant_attn cfg a =
     (let C = config.n_embd cfg; H = config.n_head cfg;
          bs = (case config.block_size cfg of None \<Rightarrow> 16 | Some b \<Rightarrow> b);
          full = (\<lambda>rows cols. replicate rows (replicate cols a))
      in Attn_attributes cfg
           \<lparr>n_embd = 0, n_head = 0, dropout = 0, ctx_len = 0, rms_norm_eps = 0, v_head_dim = 0,
            kv_lora_rank = 0, q_lora_rank = 0, rope_head_dim = 0, nope_head_dim = 0, value_dim = 0,
            nope_dim = 0, rope_dim = 0, lamb_v = 0, block_size = 0, num_blocks = 0, window_size = 0,
            num_tokens_to_keep = 0,
            compress_q_linear = full 96 C, q_norm = replicate 96 a,
            decompress_q_nope = full (H * 32) 96, decompress_q_rope = full (H * 64) 96,
            compress_kv_linear = full 32 C, kv_norm = replicate 32 a,
            decompress_k_nope = full (H * 32) 32, decompress_v_linear = full (H * 32) 32,
            k_rope_linear = full 64 C, importance_scorer = full 1 C,
            selection_k = full (H * 96) C, selection_v = full (H * 32) C,
            window_k = full (H * 96) C, window_v = full (H * 32) C,
            block_compressor = (full (4 * C) (bs * C), full C (4 * C)),
            intra_block_pos_encoding = full bs C,
            branch_gate = full 3 C, proj = full C (H * 32),
            freqs_cis = ([], [])\<rparr>)"

text \<open>\<open>constructed cfg m\<close>: the constructor returns for \<open>cfg\<close>, the sizes and tables of \<open>m\<close> are
  the ones it computes (running it on \<open>m\<close> gives \<open>m\<close> again), and the learnable tensors have
  the constructor's shapes.\<close>

definition constructed :: "config \<Rightarrow> attn \<Rightarrow> bool" where
  "constructed cfg m \<longleftrightarrow> Attn_init cfg m = Inr m \<and> weight_shapes m"

text \<open>
  The keys of a branch as the specification words them, with explicit positions: in every
  head, the rotary part of key \<open>i\<close> is rotated with the table row of position \<open>ps ! i\<close>, and the
  other part is kept.
\<close>

definition spec_rope_keys_at :: "attn \<Rightarrow> nat list \<Rightarrow> mat list \<Rightarrow> mat list" where
  "spec_rope_keys_at m ps k =
     map (\<lambda>kh. map2 (@) (map (take (nope_head_dim m)) kh)
                  (spec_rope_at (freqs_cis m) ps (map (drop (nope_head_dim m)) kh))) k"

subsection \<open>Shapes of the cache and of the calls of a session\<close>





section \<open>The mixture-of-experts layer\<close>

text \<open>\<^verbatim>\<open>MLP\<close>: two linear layers around a squared ReLU, then dropout (in training mode), on one
  token. \<open>keep j\<close> is the random draw for output entry \<open>j\<close>.\<close>

record mlp_layer =
  c_fc :: mat
  c_proj :: mat

definition MLP_forward :: "real \<Rightarrow> bool \<Rightarrow> (nat \<Rightarrow> bool) \<Rightarrow> mlp_layer \<Rightarrow> vec \<Rightarrow> vec" where
  "MLP_forward p training keep l x =
     (let h = map (\<lambda>a. (max 0 a) * (max 0 a)) (Linear (c_fc l) x);
          y = Linear (c_proj l) h
      in if training then map (\<lambda>j. dropout_elem p (keep j) (y ! j)) [0 ..< length y] else y)"

text \<open>\<^verbatim>\<open>UnitCenteredNoise(scaling)\<close> on one row: in training mode entry \<open>j\<close> is multiplied by
  \<open>noise j * scaling + (1 - scaling / 2)\<close>, where \<open>noise j\<close> is the draw of \<^verbatim>\<open>torch.rand\<close> in
  \<open>[0, 1)\<close>; in evaluation mode the row is returned as it is.\<close>

definition UnitCenteredNoise :: "real \<Rightarrow> bool \<Rightarrow> (nat \<Rightarrow> real) \<Rightarrow> vec \<Rightarrow> vec" where
  "UnitCenteredNoise scaling training noise x =
     (if training
      then map (\<lambda>j. x ! j * (noise j * scaling + (1 - scaling * (1 / 2)))) [0 ..< length x]
      else x)"

text \<open>The attributes of a \<^verbatim>\<open>DSMoE\<close> instance. \<open>gate\<close> is the weight of the linear layer of the
  gate, with \<open>num_experts - 1\<close> rows; \<open>expert_bias\<close> has \<open>num_experts - 1\<close> entries.\<close>

record dsmoe =
  hidden_dim :: nat
  num_experts :: nat
  num_exp :: nat
  moe_scaling :: real
  experts :: "mlp_layer list"
  gate :: mat
  expert_bias :: vec

text \<open>\<^verbatim>\<open>DSMoE.__init__(index, num_exp=4)\<close>; the initial weights of the experts and of the gate
  are random and taken from \<open>w\<close>, the bias starts at zero. Without experts the gate would
  have a negative number of outputs, and the constructor raises.\<close>

definition DSMoE_init :: "config \<Rightarrow> nat \<Rightarrow> dsmoe \<Rightarrow> error + dsmoe" where
  "DSMoE_init cfg n w =
     (if config.n_experts cfg = 0 then Inl RuntimeError
      else Inr (w\<lparr>hidden_dim := config.n_embd cfg * 2,
                  num_experts := config.n_experts cfg,
                  num_exp := n,
                  moe_scaling := config.init_moe_scaling cfg,
                  expert_bias := replicate (config.n_experts cfg - 1) 0\<rparr>))"

text \<open>A layer as the constructor builds it for a configuration, with all weights of the
  gate and of the experts equal to \<open>a\<close>, and with the bias \<open>bias\<close>.\<close>

definition constant_dsmoe :: "config \<Rightarrow> nat \<Rightarrow> real \<Rightarrow> vec \<Rightarrow> dsmoe" where
  "constant_dsmoe cfg n a bias =
     (let C = config.n_embd cfg
      in \<lparr>hidden_dim = C * 2, num_experts = config.n_experts cfg, num_exp = n,
          moe_scaling = config.init_moe_scaling cfg,
          experts = replicate (config.n_experts cfg)
                      \<lparr>c_fc = replicate (4 * C) (replicate C a),
                       c_proj = replicate C (replicate (4 * C) a)\<rparr>,
          gate = replicate (config.n_experts cfg - 1) (replicate C a),
          expert_bias = bias\<rparr>)"

text \<open>\<^verbatim>\<open>self.gate(x_flat)\<close> on one token: linear scores, multiplicative noise, softmax.\<close>

definition gate_forward :: "dsmoe \<Rightarrow> bool \<Rightarrow> (nat \<Rightarrow> real) \<Rightarrow> vec \<Rightarrow> vec" where
  "gate_forward l training noise x =
     softmax (UnitCenteredNoise (2 / 100) training noise (Linear (gate l) x))"

text \<open>\<^verbatim>\<open>row.scatter_add_(-1, index, src)\<close> on one row: \<open>row[index[j]] += src[j]\<close>; an index out
  of range or beyond the source raises.\<close>

fun scatter_add :: "vec \<Rightarrow> nat list \<Rightarrow> vec \<Rightarrow> error + vec" where
  "scatter_add rw [] src = Inr rw"
| "scatter_add rw (i # idx) [] = Inl RuntimeError"
| "scatter_add rw (i # idx) (v # src) =
     (if i < length rw then scatter_add (rw[i := rw ! i + v]) idx src else Inl RuntimeError)"

text \<open>The loop of lines 371 to 374 on one row, over the values \<open>is\<close> of \<open>i\<close>: the slice
  \<^verbatim>\<open>[:, i:i+1]\<close> is empty beyond the width.\<close>

fun scatter_loop :: "vec \<Rightarrow> nat list \<Rightarrow> vec \<Rightarrow> nat list \<Rightarrow> error + vec" where
  "scatter_loop rw gate_val_indices gate_vals [] = Inr rw"
| "scatter_loop rw gate_val_indices gate_vals (i # is) =
     ebind (scatter_add rw (take 1 (drop i gate_val_indices)) (take 1 (drop i gate_vals)))
       (\<lambda>rw'. scatter_loop rw' gate_val_indices gate_vals is)"

text \<open>
  Lines 363 to 374 for one token, from its row \<open>g\<close> of \<^verbatim>\<open>gate_val_continuous\<close> to its row of
  \<^verbatim>\<open>router_weights\<close>. \<^verbatim>\<open>num_exp - 1\<close> is negative for \<open>num_exp = 0\<close>, and \<^verbatim>\<open>topk\<close> raises. The
  selected biased values are divided by their sum: a sum of 0 gives \<open>nan\<close> or \<open>inf\<close> in every
  selected entry. The shared weight is built from the slice \<^verbatim>\<open>gate_vals[:, :1]\<close>, which is
  empty when nothing is selected.
\<close>

definition router_weights_row :: "dsmoe \<Rightarrow> vec \<Rightarrow> error + vec" where
  "router_weights_row l g =
     ebind (broadcast (+) g (expert_bias l)) (\<lambda>biased_gate_vals.
     if num_exp l = 0 then Inl RuntimeError
     else
       ebind (topk biased_gate_vals (num_exp l - 1)) (\<lambda>(gate_vals, gate_val_indices).
       if gate_vals \<noteq> [] \<and> sum_list gate_vals = 0 then Inl NonFinite
       else
         let gate_vals1 = map (\<lambda>a. a / sum_list gate_vals) gate_vals;
             shared_expert_weight = map (\<lambda>_. 1 / real (num_exp l)) (take 1 gate_vals1);
             gate_vals2 = shared_expert_weight @
                          map (\<lambda>a. a * real (num_exp l - 1) / real (num_exp l)) gate_vals1;
             gate_val_indices2 = map (\<lambda>_. 0) (take 1 gate_val_indices) @ map Suc gate_val_indices
         in scatter_loop (replicate (num_experts l) 0) gate_val_indices2 gate_vals2
              [0 ..< num_exp l]))"

text \<open>The sum of the selected biased gate values of one token, by which line 365 divides.\<close>

definition selected_sum :: "dsmoe \<Rightarrow> vec \<Rightarrow> real" where
  "selected_sum l g =
     (case topk (map2 (+) g (expert_bias l)) (num_exp l - 1) of
        Inl _ \<Rightarrow> 0
      | Inr (gate_vals, _) \<Rightarrow> sum_list gate_vals)"

text \<open>
  \<^verbatim>\<open>DSMoE.forward\<close> on a batch \<open>x\<close> of shape \<open>[b, t, c]\<close>: every expert is evaluated on every
  token, and the outputs are summed with the router weights. \<open>noise n\<close> and \<open>keep e n\<close> are the
  draws for token \<open>n\<close> (and expert \<open>e\<close>). It returns the output and \<^verbatim>\<open>router_weights\<close>.
\<close>

definition DSMoE_forward ::
  "real \<Rightarrow> dsmoe \<Rightarrow> bool \<Rightarrow> (nat \<Rightarrow> nat \<Rightarrow> real) \<Rightarrow> (nat \<Rightarrow> nat \<Rightarrow> nat \<Rightarrow> bool) \<Rightarrow> mat list
     \<Rightarrow> error + (mat list \<times> mat)" where
  "DSMoE_forward p l training noise keep x =
     (let b = length x; t = (case x of [] \<Rightarrow> 0 | x0 # _ \<Rightarrow> length x0);
          x_flat = concat x;
          gate_val_continuous = map (\<lambda>n. gate_forward l training (noise n) (x_flat ! n))
                                  [0 ..< length x_flat]
      in ebind (sequence (map (router_weights_row l) gate_val_continuous)) (\<lambda>router_weights.
         let expert_outputs = map (\<lambda>e. map (\<lambda>n. MLP_forward p training (keep e n)
                                                   (experts l ! e) (x_flat ! n))
                                             [0 ..< length x_flat])
                                [0 ..< length (experts l)];
             output = map (\<lambda>n. foldr (map2 (+))
                               (map (\<lambda>e. map (\<lambda>a. a * router_weights ! n ! e) (expert_outputs ! e ! n))
                                  [0 ..< length (experts l)])
                               (replicate (length (x_flat ! n)) 0))
                        [0 ..< length x_flat]
         in Inr (map (\<lambda>i. take t (drop (i * t) output)) [0 ..< b], router_weights)))"

section \<open>The bias balancer\<close>

datatype ffn = MLP mlp_layer | DSMoE dsmoe

text \<open>\<^verbatim>\<open>Tensor.add_\<close> on vectors: the result has the shape of the first operand; the second
  has the same size, or size 1 and is repeated.\<close>

definition add_inplace :: "vec \<Rightarrow> vec \<Rightarrow> error + vec" where
  "add_inplace self other =
     (if length other = length self then Inr (map2 (+) self other)
      else if length other = 1 then Inr (map (\<lambda>a. a + hd other) self)
      else Inl RuntimeError)"

text \<open>The load of expert column \<open>j\<close>: the sum of its routing weights over all tokens.\<close>

definition expert_load :: "mat \<Rightarrow> nat \<Rightarrow> real" where
  "expert_load router_weights j = sum_list (map (\<lambda>row. row ! j) router_weights)"

text \<open>
  Lines 576 to 580 for one mixture-of-experts block. Without tokens, \<^verbatim>\<open>router_weights\<close> is the
  empty tensor with \<open>num_experts\<close> columns that \<^verbatim>\<open>DSMoE.forward\<close> builds. With \<open>num_experts = 1\<close>
  the mean divides by zero: the errors are \<open>nan\<close> for a total of 0 and infinite, of the sign
  opposite to the total, otherwise.
\<close>

definition update_bias :: "dsmoe \<Rightarrow> mat \<Rightarrow> real \<Rightarrow> error + dsmoe" where
  "update_bias l router_weights update_rate =
     (let E = (case router_weights of [] \<Rightarrow> num_experts l | r # _ \<Rightarrow> length r);
          c_i = map (expert_load router_weights) [1 ..< E];
          total_routed_tokens = sum_list c_i;
          sign_e_i =
            (if num_experts l = 1
             then (if total_routed_tokens = 0 then None
                   else Some (map (\<lambda>_. - sgn total_routed_tokens) c_i))
             else Some (map (\<lambda>c. sgn (c - total_routed_tokens / (real_of_int (int (num_experts l) - 1))))
                          c_i))
      in case sign_e_i of
           None \<Rightarrow>
             ebind (add_inplace (expert_bias l) (map (\<lambda>_. 0) c_i))
               (\<lambda>b'. if b' = [] then Inr (l\<lparr>expert_bias := b'\<rparr>) else Inl NonFinite)
         | Some s \<Rightarrow>
             ebind (add_inplace (expert_bias l) (map (\<lambda>a. update_rate * a) s))
               (\<lambda>b'. Inr (l\<lparr>expert_bias := b'\<rparr>)))"

text \<open>\<^verbatim>\<open>Transformer.update_expert_biases\<close> over the feed-forward sublayers of the blocks, with
  the counter \<open>j\<close> of the mixture-of-experts blocks seen.\<close>

fun update_expert_biases_from :: "ffn list \<Rightarrow> mat list \<Rightarrow> nat \<Rightarrow> real \<Rightarrow> error + ffn list" where
  "update_expert_biases_from [] all_router_weights j update_rate = Inr []"
| "update_expert_biases_from (MLP l # blocks) all_router_weights j update_rate =
     ebind (update_expert_biases_from blocks all_router_weights j update_rate)
       (\<lambda>blocks'. Inr (MLP l # blocks'))"
| "update_expert_biases_from (DSMoE l # blocks) all_router_weights j update_rate =
     (if j < length all_router_weights
      then ebind (update_bias l (all_router_weights ! j) update_rate) (\<lambda>l'.
           ebind (update_expert_biases_from blocks all_router_weights (j + 1) update_rate)
             (\<lambda>blocks'. Inr (DSMoE l' # blocks')))
      else Inl IndexError)"

definition update_expert_biases :: "ffn list \<Rightarrow> mat list \<Rightarrow> real \<Rightarrow> error + ffn list" where
  "update_expert_biases blocks all_router_weights update_rate =
     update_expert_biases_from blocks all_router_weights 0 update_rate"

section \<open>Properties of the rotary encoder\<close>

lemma sequence_map_Inr: "sequence (map (\<lambda>x. Inr (g x)) xs) = Inr (map g xs)"
  by (induction xs) (simp_all add: ebind_def)

lemma sequence_map2_Inr: "sequence (map (\<lambda>(a, b). Inr (h a b)) zs) = Inr (map (\<lambda>(a, b). h a b) zs)"
  by (induction zs) (simp_all add: ebind_def case_prod_unfold)

lemma shape_nth: "shape T D m \<Longrightarrow> p < T \<Longrightarrow> length (m ! p) = D"
  by (simp add: shape_def list_all_length)

lemma shape_length: "shape T D m \<Longrightarrow> length m = T"
  by (simp add: shape_def)

lemma shapeI: "length m = T \<Longrightarrow> (\<And>p. p < T \<Longrightarrow> length (m ! p) = D) \<Longrightarrow> shape T D m"
  by (simp add: shape_def list_all_length)

lemma shape_take: "shape n D m \<Longrightarrow> T \<le> n \<Longrightarrow> shape T D (take T m)"
  by (simp add: shape_def list_all_length)

lemma broadcast_same: "length xs = length ys \<Longrightarrow> broadcast f xs ys = Inr (map2 f xs ys)"
  by (simp add: broadcast_def)

lemma tensor_op_shaped:
  assumes "shape T D X" "shape T D Y"
  shows "tensor_op f X Y = Inr (map2 (map2 f) X Y)"
proof -
  have len: "length X = length Y" using assms by (simp add: shape_def)
  have "map2 (broadcast f) X Y = map (\<lambda>(a, b). Inr (map2 f a b)) (zip X Y)"
  proof (rule map_cong[OF refl])
    fix ab assume in_zip: "ab \<in> set (zip X Y)"
    have "fst ab \<in> set X" "snd ab \<in> set Y"
      using in_zip by (metis prod.collapse set_zip_leftD, metis prod.collapse set_zip_rightD)
    then have "length (fst ab) = length (snd ab)"
      using assms by (simp add: shape_def list_all_iff)
    then show "(case ab of (a, b) \<Rightarrow> broadcast f a b) = (case ab of (a, b) \<Rightarrow> Inr (map2 f a b))"
      by (simp add: broadcast_same case_prod_unfold)
  qed
  then have "sequence (map2 (broadcast f) X Y) = Inr (map2 (map2 f) X Y)"
    by (simp only: sequence_map2_Inr)
  then show ?thesis using len by (simp add: tensor_op_def broadcast_same ebind_def)
qed

lemma shape_map2: "shape T D X \<Longrightarrow> shape T D Y \<Longrightarrow> shape T D (map2 (map2 f) X Y)"
  by (simp add: shape_def list_all_length)

lemma chunk2_shaped:
  assumes "shape T (2 * w) x"
  shows "sequence (map chunk2 x) = Inr (map (\<lambda>v. (take w v, drop w v)) x)"
proof -
  have "map chunk2 x = map (\<lambda>v. Inr (take w v, drop w v)) x"
    using assms by (intro map_cong) (auto simp: shape_def list_all_iff chunk2_def)
  then show ?thesis by (simp only: sequence_map_Inr)
qed

lemma rotate_row_eq:
  assumes "length v = 2 * w" "length cs = w" "length sn = w"
  shows "map2 (-) (map2 (*) (take w v) cs) (map2 (*) (drop w v) sn) @
         map2 (+) (map2 (*) (take w v) sn) (map2 (*) (drop w v) cs) = spec_rotate_row cs sn v"
proof -
  have a: "map2 (-) (map2 (*) (take w v) cs) (map2 (*) (drop w v) sn) =
           map (\<lambda>j. take w v ! j * cs ! j - drop w v ! j * sn ! j) [0 ..< w]"
    using assms by (intro nth_equalityI) simp_all
  have b: "map2 (+) (map2 (*) (take w v) sn) (map2 (*) (drop w v) cs) =
           map (\<lambda>j. take w v ! j * sn ! j + drop w v ! j * cs ! j) [0 ..< w]"
    using assms by (intro nth_equalityI) simp_all
  show ?thesis using assms by (simp only: a b spec_rotate_row_def Let_def) simp
qed



lemma shape_map_take_drop:
  "shape T (2 * w) x \<Longrightarrow> shape T w (map (take w) x) \<and> shape T w (map (drop w) x)"
  by (simp add: shape_def list_all_iff)

lemma rotated_eq_spec:
  assumes x: "shape T (2 * w) x" and c: "shape T w c" and s: "shape T w s"
  shows "map2 (@) (map2 (map2 (-)) (map2 (map2 (*)) (map (take w) x) c)
                                    (map2 (map2 (*)) (map (drop w) x) s))
                  (map2 (map2 (+)) (map2 (map2 (*)) (map (take w) x) s)
                                    (map2 (map2 (*)) (map (drop w) x) c))
         = map (\<lambda>p. spec_rotate_row (c ! p) (s ! p) (x ! p)) [0 ..< T]"
proof (rule nth_equalityI)
  show "length (map2 (@) (map2 (map2 (-)) (map2 (map2 (*)) (map (take w) x) c)
                                    (map2 (map2 (*)) (map (drop w) x) s))
                  (map2 (map2 (+)) (map2 (map2 (*)) (map (take w) x) s)
                                    (map2 (map2 (*)) (map (drop w) x) c)))
        = length (map (\<lambda>p. spec_rotate_row (c ! p) (s ! p) (x ! p)) [0 ..< T])"
    using assms by (simp add: shape_def)
next
  fix p
  assume "p < length (map2 (@) (map2 (map2 (-)) (map2 (map2 (*)) (map (take w) x) c)
                                    (map2 (map2 (*)) (map (drop w) x) s))
                  (map2 (map2 (+)) (map2 (map2 (*)) (map (take w) x) s)
                                    (map2 (map2 (*)) (map (drop w) x) c)))"
  then have p: "p < T" using assms by (simp add: shape_def)
  have len: "length x = T" "length c = T" "length s = T" using assms by (simp_all add: shape_def)
  have row: "length (x ! p) = 2 * w" "length (c ! p) = w" "length (s ! p) = w"
    using assms p by (simp_all add: shape_nth)
  show "map2 (@) (map2 (map2 (-)) (map2 (map2 (*)) (map (take w) x) c)
                                    (map2 (map2 (*)) (map (drop w) x) s))
                  (map2 (map2 (+)) (map2 (map2 (*)) (map (take w) x) s)
                                    (map2 (map2 (*)) (map (drop w) x) c)) ! p
        = map (\<lambda>p. spec_rotate_row (c ! p) (s ! p) (x ! p)) [0 ..< T] ! p"
    using p len rotate_row_eq[OF row] by simp
qed

lemma spec_rope_at_upt:
  "length x = T \<Longrightarrow> spec_rope_at (c, s) [0 ..< T] x = map (\<lambda>p. spec_rotate_row (c ! p) (s ! p) (x ! p)) [0 ..< T]"
  by (intro nth_equalityI) (simp_all add: spec_rope_at_def)

lemma spec_rope_at_take:
  "length x = T \<Longrightarrow> spec_rope_at (take T c, take T s) [0 ..< T] x = spec_rope_at (c, s) [0 ..< T] x"
  by (intro nth_equalityI) (simp_all add: spec_rope_at_def)


lemma apply_rope_shaped:
  assumes x: "shape T (2 * w) x" and y: "shape T (2 * w) y"
    and c: "shape n w c" and s: "shape n w s" and Tn: "T \<le> n"
  shows "apply_rope x y (c, s) = Inr (spec_rope_at (c, s) [0 ..< T] x, spec_rope_at (c, s) [0 ..< T] y)"
proof -
  let ?c = "take T c" and ?s = "take T s"
  have c': "shape T w ?c" and s': "shape T w ?s"
    using c s Tn by (simp_all add: shape_take)
  have len: "length x = T" "length y = T" using x y by (simp_all add: shape_def)
  note xs = shape_map_take_drop[OF x] and ys = shape_map_take_drop[OF y]
  have xr: "shape T w (map (take w) x)" and xi: "shape T w (map (drop w) x)"
    and yr: "shape T w (map (take w) y)" and yi: "shape T w (map (drop w) y)"
    using xs ys by simp_all
  have m: "\<And>f a b. shape T w a \<Longrightarrow> shape T w b \<Longrightarrow> shape T w (map2 (map2 f) a b)"
    by (rule shape_map2)
  have t: "\<And>f a b. shape T w a \<Longrightarrow> shape T w b \<Longrightarrow> tensor_op f a b = Inr (map2 (map2 f) a b)"
    by (rule tensor_op_shaped)
  have cat: "\<And>a b. shape T w a \<Longrightarrow> shape T w b \<Longrightarrow> cat_last a b = Inr (map2 (@) a b)"
    by (simp add: cat_last_def shape_def)
  have "apply_rope x y (c, s) =
        Inr (map2 (@) (map2 (map2 (-)) (map2 (map2 (*)) (map (take w) x) ?c)
                                    (map2 (map2 (*)) (map (drop w) x) ?s))
                  (map2 (map2 (+)) (map2 (map2 (*)) (map (take w) x) ?s)
                                    (map2 (map2 (*)) (map (drop w) x) ?c)),
             map2 (@) (map2 (map2 (-)) (map2 (map2 (*)) (map (take w) y) ?c)
                                    (map2 (map2 (*)) (map (drop w) y) ?s))
                  (map2 (map2 (+)) (map2 (map2 (*)) (map (take w) y) ?s)
                                    (map2 (map2 (*)) (map (drop w) y) ?c)))"
    unfolding apply_rope_def Let_def prod.case len
    by (simp add: chunk2_shaped[OF x] chunk2_shaped[OF y] ebind_def comp_def
        t m cat xr xi yr yi c' s')
  also have "\<dots> = Inr (spec_rope_at (c, s) [0 ..< T] x, spec_rope_at (c, s) [0 ..< T] y)"
    by (simp only: rotated_eq_spec[OF x c' s'] rotated_eq_spec[OF y c' s']
        spec_rope_at_upt[OF len(1), symmetric] spec_rope_at_upt[OF len(2), symmetric]
        spec_rope_at_take[OF len(1)] spec_rope_at_take[OF len(2)])
  finally show ?thesis .
qed

lemma precompute_shape:
  "shape en ((dm + 1) div 2) (fst (precompute_freqs_cis dm en theta))"
  "shape en ((dm + 1) div 2) (snd (precompute_freqs_cis dm en theta))"
  by (simp_all add: precompute_freqs_cis_def Let_def shape_def list_all_length)


lemma sequence_chunk2:
  "sequence (map chunk2 x) =
     (if list_ex (\<lambda>v. length v = 1) x then Inl ValueError
      else Inr (map (\<lambda>v. (take ((length v + 1) div 2) v, drop ((length v + 1) div 2) v)) x))"
  by (induction x) (simp_all add: ebind_def chunk2_def Let_def)



text \<open>
  Claim C3 (amended). \<open>apply_rope\<close> has no capacity check of its own. When the sequence is
  longer than the table, the slice \<^verbatim>\<open>cos_freqs[:seq_len]\<close> is the whole table and the first
  product \<^verbatim>\<open>x_real * cos_seq\<close> fails to broadcast: torch raises a RuntimeError (a ValueError
  from the tuple assignment comes first when the last dimension has size 1). The table is
  never grown. This needs a table that does not have exactly one row, and more than one
  requested position; both hold for every \<open>ctx_len \<ge> 2\<close>, the configured 2048 included.
\<close>

theorem apply_rope_beyond_capacity_fails:
  assumes "length (fst fc) < length x" "length (fst fc) \<noteq> 1" "length x \<noteq> 1"
  shows "apply_rope x y fc =
           Inl (if list_ex (\<lambda>v. length v = 1) (x @ y) then ValueError else RuntimeError)"
proof -
  obtain c s where fc: "fc = (c, s)" by (cases fc)
  have "length (map fst xc) = length x" if "length xc = length x" for xc :: "(vec \<times> vec) list"
    using that by simp
  have bc: "broadcast (broadcast (*)) (map g x) (take (length x) c) = Inl RuntimeError" for g :: "vec \<Rightarrow> vec"
    using assms by (simp add: broadcast_def fc)
  show ?thesis
    unfolding apply_rope_def fc prod.case Let_def sequence_chunk2
    using bc by (simp add: ebind_def tensor_op_def comp_def)
qed

theorem apply_rope_beyond_capacity_fails_witness:
  "apply_rope [[1, 2], [3, 4], [5, 6]] [[1, 2], [3, 4], [5, 6]] (precompute_freqs_cis 2 2 10000) =
     Inl RuntimeError"
  using apply_rope_beyond_capacity_fails[of "precompute_freqs_cis 2 2 10000"
      "[[1, 2], [3, 4], [5, 6]]" "[[1, 2], [3, 4], [5, 6]]"]
  by (simp add: precompute_freqs_cis_def)

text \<open>
  Claim C3 as stated fails for a table of capacity 1 (\<open>ctx_len = 1\<close>): its single row
  broadcasts over every position, and a request for two positions returns normally, both
  rows rotated with position 0.
\<close>

theorem apply_rope_one_row_table_counterexample:
  "length (fst (precompute_freqs_cis 2 1 10000)) < length [[1, 2], [3, 4 :: real]] \<and>
   apply_rope [[1, 2], [3, 4]] [[1, 2], [3, 4]] (precompute_freqs_cis 2 1 10000) =
     Inr ([[1, 2], [3, 4]], [[1, 2], [3, 4]])"
  by (simp add: apply_rope_def precompute_freqs_cis_def chunk2_def tensor_op_def broadcast_def
      ebind_def cat_last_def Let_def)

section \<open>Token selection\<close>

lemma length_concat_shape: "shape T 1 s \<Longrightarrow> length (concat s) = T"
  by (induction s arbitrary: T) (auto simp: shape_def)

lemma topk_indices:
  assumes "k \<le> length xs"
  shows "\<exists>vals idx. topk xs k = Inr (vals, idx) \<and> length idx = k \<and> distinct idx \<and>
           set idx \<subseteq> {0 ..< length xs} \<and> vals = map ((!) xs) idx"
proof -
  let ?s = "sort_key (\<lambda>i. - (xs ! i)) [0 ..< length xs]"
  have "distinct ?s" "set ?s = {0 ..< length xs}" "length ?s = length xs" by simp_all
  then have "distinct (take k ?s)" "set (take k ?s) \<subseteq> {0 ..< length xs}" "length (take k ?s) = k"
    using assms by (auto dest: in_set_takeD)
  then show ?thesis using assms by (simp add: topk_def Let_def)
qed

lemma select_important_tokens_ok:
  assumes "shape (length x) 1 importance_scores"
  shows "\<exists>selected_tokens indices.
           select_important_tokens m x importance_scores = Inr (selected_tokens, indices) \<and>
           sorted_wrt (<) indices \<and>
           length indices = min (num_tokens_to_keep m) (length x) \<and>
           set indices \<subseteq> {0 ..< length x} \<and>
           selected_tokens = map ((!) x) indices"
proof -
  let ?k = "min (num_tokens_to_keep m) (length x)"
  have len: "length (concat importance_scores) = length x"
    using assms by (rule length_concat_shape)
  then obtain vals idx where t: "topk (concat importance_scores) ?k = Inr (vals, idx)"
    and idx: "length idx = ?k" "distinct idx" "set idx \<subseteq> {0 ..< length x}"
    using topk_indices[of ?k "concat importance_scores"] by auto
  have s: "sorted_wrt (<) (sort idx)" using idx(2) by (simp add: strict_sorted_iff)
  have g: "gather x (sort idx) = Inr (map ((!) x) (sort idx))"
    using idx(3) by (auto simp: gather_def list_all_iff)
  show ?thesis
    using t idx s g by (simp add: select_important_tokens_def Let_def ebind_def)
qed



text \<open>
  Claim C9. For one batch item \<open>x\<close> of \<open>T\<close> positions with its \<open>[T, 1]\<close> importance scores,
  \<open>select_important_tokens\<close> returns without error; the indices are strictly increasing, there
  are \<open>min(num_tokens_to_keep, T)\<close> of them, all below \<open>T\<close>, and the selected tokens are the
  tokens at these indices.
\<close>

theorem select_important_tokens_indices:
  assumes "shape (length x) 1 importance_scores"
  shows "\<exists>selected_tokens indices.
           select_important_tokens m x importance_scores = Inr (selected_tokens, indices) \<and>
           sorted_wrt (<) indices \<and>
           length indices = min (num_tokens_to_keep m) (length x) \<and>
           set indices \<subseteq> {0 ..< length x} \<and>
           selected_tokens = map ((!) x) indices"
  using assms by (rule select_important_tokens_ok)

theorem select_important_tokens_indices_witness:
  "shape (length [[1], [2], [3 :: real]]) 1 [[5], [7], [6 :: real]] \<and>
   (\<exists>selected_tokens indices.
      select_important_tokens (constant_attn source_config 1) [[1], [2], [3]] [[5], [7], [6]] =
        Inr (selected_tokens, indices) \<and>
      sorted_wrt (<) indices \<and>
      length indices = min (num_tokens_to_keep (constant_attn source_config 1)) (length [[1], [2], [3 :: real]]) \<and>
      set indices \<subseteq> {0 ..< length [[1], [2], [3 :: real]]} \<and>
      selected_tokens = map ((!) [[1], [2], [3]]) indices)"
proof -
  have h: "shape (length [[1], [2], [3 :: real]]) 1 [[5], [7], [6 :: real]]"
    by (simp add: shape_def)
  show ?thesis
    using h select_important_tokens_indices[OF h, of "constant_attn source_config 1"] by blast
qed

section \<open>The selection branch\<close>

lemma constructed_fields:
  assumes "constructed cfg m"
  shows "rope_head_dim m = 64" "nope_head_dim m = 32" "v_head_dim m = 32"
    "kv_lora_rank m = 32" "q_lora_rank m = 96"
    "attn.n_embd m = config.n_embd cfg" "attn.n_head m = config.n_head cfg"
    "attn.ctx_len m = config.ctx_len cfg"
    "value_dim m = attn.n_head m * 32" "nope_dim m = attn.n_head m * 32"
    "rope_dim m = attn.n_head m * 64"
    "freqs_cis m = precompute_freqs_cis 64 (attn.ctx_len m) 10000"
    "weight_shapes m"
proof -
  have "Attn_init cfg m = Inr m" and w: "weight_shapes m"
    using assms by (simp_all add: constructed_def)
  then have e: "Attn_attributes cfg m = m"
    by (simp add: Attn_init_def split: if_splits)
  have "rope_head_dim (Attn_attributes cfg m) = 64" "nope_head_dim (Attn_attributes cfg m) = 32"
    "v_head_dim (Attn_attributes cfg m) = 32" "kv_lora_rank (Attn_attributes cfg m) = 32"
    "q_lora_rank (Attn_attributes cfg m) = 96"
    "attn.n_embd (Attn_attributes cfg m) = config.n_embd cfg"
    "attn.n_head (Attn_attributes cfg m) = config.n_head cfg"
    "attn.ctx_len (Attn_attributes cfg m) = config.ctx_len cfg"
    "value_dim (Attn_attributes cfg m) = attn.n_head (Attn_attributes cfg m) * 32"
    "nope_dim (Attn_attributes cfg m) = attn.n_head (Attn_attributes cfg m) * 32"
    "rope_dim (Attn_attributes cfg m) = attn.n_head (Attn_attributes cfg m) * 64"
    "freqs_cis (Attn_attributes cfg m) = precompute_freqs_cis 64 (attn.ctx_len (Attn_attributes cfg m)) 10000"
    by (simp_all add: Attn_attributes_def)
  then show "rope_head_dim m = 64" "nope_head_dim m = 32" "v_head_dim m = 32"
    "kv_lora_rank m = 32" "q_lora_rank m = 96"
    "attn.n_embd m = config.n_embd cfg" "attn.n_head m = config.n_head cfg"
    "attn.ctx_len m = config.ctx_len cfg"
    "value_dim m = attn.n_head m * 32" "nope_dim m = attn.n_head m * 32"
    "rope_dim m = attn.n_head m * 64"
    "freqs_cis m = precompute_freqs_cis 64 (attn.ctx_len m) 10000"
    by (simp_all only: e)
  show "weight_shapes m" by (rule w)
qed

lemma constructed_constant_attn:
  assumes "config.block_size cfg \<noteq> Some 0" "0 \<le> config.dropout cfg" "config.dropout cfg \<le> 1"
  shows "constructed cfg (constant_attn cfg a)"
  using assms
  by (simp add: constructed_def constant_attn_def Attn_init_def Attn_attributes_def
      weight_shapes_def shape_def list_all_length Let_def)

lemma constructed_source: "constructed source_config (constant_attn source_config a)"
  by (rule constructed_constant_attn) (simp_all add: source_config_def)

lemma constructed_source_keep:
  "constructed (source_config\<lparr>config.num_tokens_to_keep := Some k\<rparr>)
     (constant_attn (source_config\<lparr>config.num_tokens_to_keep := Some k\<rparr>) a)"
  by (rule constructed_constant_attn) (simp_all add: source_config_def)

lemma length_Linear: "length (Linear W v) = length W"
  by (simp add: Linear_def)

lemma shape_map_Linear: "length W = D \<Longrightarrow> length x = T \<Longrightarrow> shape T D (map (Linear W) x)"
  by (simp add: shape_def list_all_length length_Linear)

lemma length_view_heads: "length (view_heads H D t) = H"
  by (simp add: view_heads_def)

lemma shape_view_heads:
  "shape T (H * D) t \<Longrightarrow> h < H \<Longrightarrow> shape T D (view_heads H D t ! h)"
proof -
  assume t: "shape T (H * D) t" and h: "h < H"
  have "h * D + D \<le> H * D"
    using h by (metis Suc_leI mult_Suc mult_le_mono1 add.commute)
  then show ?thesis using t h by (auto simp: view_heads_def shape_def list_all_length)
qed


lemma rope_keys_eq:
  assumes m: "constructed cfg m"
    and k: "list_all (shape S (rope_head_dim m + nope_head_dim m)) k"
    and S: "S \<le> attn.ctx_len m"
  shows "rope_keys m k = Inr (spec_rope_keys_at m [0 ..< S] k)"
proof -
  note f = constructed_fields[OF m]
  define c where "c = fst (freqs_cis m)"
  define s where "s = snd (freqs_cis m)"
  have fc: "freqs_cis m = (c, s)" by (simp add: c_def s_def)
  have c: "shape (attn.ctx_len m) 32 c" and s: "shape (attn.ctx_len m) 32 s"
    using precompute_shape[of "attn.ctx_len m" 64 10000] by (simp_all add: c_def s_def f)
  have one: "(let k_rope = map (drop (nope_head_dim m)) kh;
                  k_nope = map (take (nope_head_dim m)) kh
              in ebind (apply_rope k_rope k_rope (freqs_cis m))
                   (\<lambda>(_, k_rope'). Inr (map2 (@) k_nope k_rope')))
             = Inr (map2 (@) (map (take (nope_head_dim m)) kh)
                     (spec_rope_at (freqs_cis m) [0 ..< S] (map (drop (nope_head_dim m)) kh)))"
    if "kh \<in> set k" for kh
  proof -
    have "shape S (64 + 32) kh" using k that by (simp add: list_all_iff f)
    then have r: "shape S (2 * 32) (map (drop 32) kh)"
      by (simp add: shape_def list_all_iff)
    show ?thesis
      using apply_rope_shaped[OF r r c s S] by (simp add: Let_def f(1,2) fc ebind_def)
  qed
  have "map (\<lambda>kh. let k_rope = map (drop (nope_head_dim m)) kh;
                      k_nope = map (take (nope_head_dim m)) kh
                  in ebind (apply_rope k_rope k_rope (freqs_cis m))
                       (\<lambda>(_, k_rope'). Inr (map2 (@) k_nope k_rope'))) k
        = map (\<lambda>kh. Inr (map2 (@) (map (take (nope_head_dim m)) kh)
                     (spec_rope_at (freqs_cis m) [0 ..< S] (map (drop (nope_head_dim m)) kh)))) k"
    by (rule map_cong[OF refl]) (rule one)
  then show ?thesis
    unfolding rope_keys_def spec_rope_keys_at_def by (simp only: sequence_map_Inr)
qed

lemma shape_projection_heads:
  assumes "length W = H * D" "length t = T"
  shows "list_all (shape T D) (view_heads H D (map (Linear W) t))"
proof -
  have "shape T (H * D) (map (Linear W) t)" using assms by (simp add: shape_map_Linear)
  then have "\<And>h. h < H \<Longrightarrow> shape T D (view_heads H D (map (Linear W) t) ! h)"
    by (rule shape_view_heads)
  then show ?thesis by (simp add: list_all_length length_view_heads)
qed

lemma selection_branch_eq:
  assumes m: "constructed cfg m" and x: "length x = T"
    and S: "min (attn.num_tokens_to_keep m) T \<le> attn.ctx_len m"
  shows "\<exists>selected_tokens selected_indices.
           select_important_tokens m x (map (Linear (importance_scorer m)) x) =
             Inr (selected_tokens, selected_indices) \<and>
           sorted_wrt (<) selected_indices \<and>
           length selected_indices = min (attn.num_tokens_to_keep m) T \<and>
           set selected_indices \<subseteq> {0 ..< T} \<and>
           selected_tokens = map ((!) x) selected_indices \<and>
           selection_branch m x =
             Inr (spec_rope_keys_at m [0 ..< length selected_indices]
                    (fst (selection_projections m selected_tokens)),
                  snd (selection_projections m selected_tokens), selected_indices)"
proof -
  note f = constructed_fields[OF m]
  have sc: "shape (length x) 1 (map (Linear (importance_scorer m)) x)"
    using f(13) by (simp add: weight_shapes_def shape_def list_all_length length_Linear)
  obtain sel idx where sel:
    "select_important_tokens m x (map (Linear (importance_scorer m)) x) = Inr (sel, idx)"
    "sorted_wrt (<) idx" "length idx = min (attn.num_tokens_to_keep m) (length x)"
    "set idx \<subseteq> {0 ..< length x}" "sel = map ((!) x) idx"
    using select_important_tokens_ok[OF sc, of m] by blast
  have lk: "length (selection_k m) = attn.n_head m * (rope_head_dim m + nope_head_dim m)"
    using f(13) by (simp add: weight_shapes_def shape_def)
  have "list_all (shape (length idx) (rope_head_dim m + nope_head_dim m))
          (fst (selection_projections m sel))"
    unfolding selection_projections_def fst_conv
    by (rule shape_projection_heads[OF lk]) (simp add: sel(5))
  then have "rope_keys m (fst (selection_projections m sel)) =
        Inr (spec_rope_keys_at m [0 ..< length idx] (fst (selection_projections m sel)))"
    using S by (intro rope_keys_eq[OF m]) (simp_all add: sel(3) x)
  then have "selection_branch m x =
      Inr (spec_rope_keys_at m [0 ..< length idx] (fst (selection_projections m sel)),
           snd (selection_projections m sel), idx)"
    using sel(1) by (simp add: selection_branch_def Let_def ebind_def case_prod_unfold)
  then show ?thesis using sel x by blast
qed

lemma precompute_nth:
  assumes "p < en" "j < (dm + 1) div 2"
  shows "fst (precompute_freqs_cis dm en theta) ! p ! j = cos (real p * (1 / theta powr (real (2 * j) / real dm)))"
    "snd (precompute_freqs_cis dm en theta) ! p ! j = sin (real p * (1 / theta powr (real (2 * j) / real dm)))"
  using assms by (simp_all add: precompute_freqs_cis_def Let_def)

lemma view_heads_nth:
  "h < H \<Longrightarrow> i < length t \<Longrightarrow> view_heads H D t ! h ! i = take D (drop (h * D) (t ! i))"
  by (simp add: view_heads_def)

lemma spec_rotate_row_nth:
  assumes "length v = 2 * w" "j < w"
  shows "spec_rotate_row cs sn v ! j = v ! j * cs ! j - v ! (w + j) * sn ! j"
  using assms by (simp add: spec_rotate_row_def Let_def nth_append)

lemma spec_rope_keys_at_entry:
  assumes h: "h < length k" and i: "i < length (k ! h)" "i < length ps"
    and row: "length (k ! h ! i) = nope_head_dim m + 2 * w" and j: "j < w"
  shows "spec_rope_keys_at m ps k ! h ! i ! (nope_head_dim m + j) =
           k ! h ! i ! (nope_head_dim m + j) * fst (freqs_cis m) ! (ps ! i) ! j -
           k ! h ! i ! (nope_head_dim m + w + j) * snd (freqs_cis m) ! (ps ! i) ! j"
proof -
  have d: "length (drop (nope_head_dim m) (k ! h ! i)) = 2 * w" using row by simp
  have "spec_rope_keys_at m ps k ! h ! i =
          take (nope_head_dim m) (k ! h ! i) @
          spec_rotate_row (fst (freqs_cis m) ! (ps ! i)) (snd (freqs_cis m) ! (ps ! i))
            (drop (nope_head_dim m) (k ! h ! i))"
    using h i by (simp add: spec_rope_keys_at_def spec_rope_at_def)
  then show ?thesis
    using row j spec_rotate_row_nth[OF d j] by (simp add: nth_append add.assoc)
qed

lemma Linear_replicate:
  "Linear (replicate n (replicate d a)) (replicate d b) = replicate n (real d * (a * b))"
  by (simp add: Linear_def zip_replicate sum_list_replicate)

lemma Linear_single:
  "Linear [replicate d a] (replicate d b) = [real d * (a * b)]"
  using Linear_replicate[of 1 d a b] by simp

lemma cos_minus_sin_one: "cos (1::real) - sin 1 \<noteq> 1"
proof -
  have "0 < sin (1::real)" by (rule sin_gt_zero) (use pi_ge_two in simp_all)
  moreover have "cos (1::real) \<le> 1" by simp
  ultimately show ?thesis by linarith
qed

text \<open>
  Claim C1 (amended). \<open>apply_rope\<close> takes no positions: it rotates row \<open>i\<close> of its argument with
  table row \<open>i\<close>. In the selection branch the argument holds the \<open>S\<close> selected tokens, so the
  key of the \<open>i\<close>-th selected token is rotated with position \<open>i\<close> of \<open>0, ..., S - 1\<close>, whatever
  its index in the input sequence; the selected indices are returned and not used.
\<close>

theorem selection_branch_rope_positions:
  assumes "constructed cfg m"
    and "min (attn.num_tokens_to_keep m) (length x) \<le> attn.ctx_len m"
  shows "\<exists>selected_tokens selected_indices.
           select_important_tokens m x (map (Linear (importance_scorer m)) x) =
             Inr (selected_tokens, selected_indices) \<and>
           selected_tokens = map ((!) x) selected_indices \<and>
           selection_branch m x =
             Inr (spec_rope_keys_at m [0 ..< length selected_indices]
                    (fst (selection_projections m selected_tokens)),
                  snd (selection_projections m selected_tokens), selected_indices)"
  using selection_branch_eq[OF assms(1) refl assms(2)] by blast

theorem selection_branch_rope_positions_witness:
  "constructed (source_config\<lparr>config.num_tokens_to_keep := Some 2\<rparr>)
     (constant_attn (source_config\<lparr>config.num_tokens_to_keep := Some 2\<rparr>) 1) \<and>
   min (attn.num_tokens_to_keep (constant_attn (source_config\<lparr>config.num_tokens_to_keep := Some 2\<rparr>) 1))
       (length [replicate 256 0, replicate 256 1, replicate 256 (2 :: real)])
     \<le> attn.ctx_len (constant_attn (source_config\<lparr>config.num_tokens_to_keep := Some 2\<rparr>) 1) \<and>
   (\<exists>selected_tokens selected_indices.
      select_important_tokens (constant_attn (source_config\<lparr>config.num_tokens_to_keep := Some 2\<rparr>) 1)
          [replicate 256 0, replicate 256 1, replicate 256 2]
          (map (Linear (importance_scorer (constant_attn (source_config\<lparr>config.num_tokens_to_keep := Some 2\<rparr>) 1)))
             [replicate 256 0, replicate 256 1, replicate 256 2])
        = Inr (selected_tokens, selected_indices) \<and>
      selected_tokens = map ((!) [replicate 256 0, replicate 256 1, replicate 256 2]) selected_indices \<and>
      selection_branch (constant_attn (source_config\<lparr>config.num_tokens_to_keep := Some 2\<rparr>) 1)
          [replicate 256 0, replicate 256 1, replicate 256 2]
        = Inr (spec_rope_keys_at (constant_attn (source_config\<lparr>config.num_tokens_to_keep := Some 2\<rparr>) 1)
                 [0 ..< length selected_indices]
                 (fst (selection_projections (constant_attn (source_config\<lparr>config.num_tokens_to_keep := Some 2\<rparr>) 1)
                         selected_tokens)),
               snd (selection_projections (constant_attn (source_config\<lparr>config.num_tokens_to_keep := Some 2\<rparr>) 1)
                         selected_tokens),
               selected_indices))"
proof -
  have c: "constructed (source_config\<lparr>config.num_tokens_to_keep := Some 2\<rparr>)
     (constant_attn (source_config\<lparr>config.num_tokens_to_keep := Some 2\<rparr>) 1)"
    by (rule constructed_source_keep)
  have k: "min (attn.num_tokens_to_keep (constant_attn (source_config\<lparr>config.num_tokens_to_keep := Some 2\<rparr>) 1))
       (length [replicate 256 0, replicate 256 1, replicate 256 (2 :: real)])
     \<le> attn.ctx_len (constant_attn (source_config\<lparr>config.num_tokens_to_keep := Some 2\<rparr>) 1)"
    by (simp add: constant_attn_def Attn_attributes_def source_config_def Let_def)
  show ?thesis
    using c k selection_branch_rope_positions[OF c k] by blast
qed

text \<open>
  Claim C1 as stated fails. With the configuration of the source and
  \<^verbatim>\<open>num_tokens_to_keep = 2\<close>, all weights 1 and three tokens whose entries are 0, 1 and 2, the
  tokens at indices 1 and 2 are selected. The branch rotates their keys with positions 0
  and 1; rotating them with positions 1 and 2 gives other keys (the first rotary entry of the
  first key is \<open>256\<close>, not \<open>256 * (cos 1 - sin 1)\<close>).
\<close>

theorem selection_branch_rope_positions_counterexample:
  "select_important_tokens (constant_attn (source_config\<lparr>config.num_tokens_to_keep := Some 2\<rparr>) 1)
       [replicate 256 0, replicate 256 1, replicate 256 2]
       (map (Linear (importance_scorer (constant_attn (source_config\<lparr>config.num_tokens_to_keep := Some 2\<rparr>) 1)))
          [replicate 256 0, replicate 256 1, replicate 256 2])
     = Inr ([replicate 256 1, replicate 256 2], [1, 2]) \<and>
   selection_branch (constant_attn (source_config\<lparr>config.num_tokens_to_keep := Some 2\<rparr>) 1)
       [replicate 256 0, replicate 256 1, replicate 256 2]
     \<noteq> Inr (spec_rope_keys_at (constant_attn (source_config\<lparr>config.num_tokens_to_keep := Some 2\<rparr>) 1) [1, 2]
              (fst (selection_projections (constant_attn (source_config\<lparr>config.num_tokens_to_keep := Some 2\<rparr>) 1)
                      [replicate 256 1, replicate 256 2])),
            snd (selection_projections (constant_attn (source_config\<lparr>config.num_tokens_to_keep := Some 2\<rparr>) 1)
                      [replicate 256 1, replicate 256 2]),
            [1, 2])"
proof -
  define cfg where "cfg = source_config\<lparr>config.num_tokens_to_keep := Some 2\<rparr>"
  define m where "m = constant_attn cfg 1"
  define x :: mat where "x = [replicate 256 0, replicate 256 1, replicate 256 2]"
  define sel :: mat where "sel = [replicate 256 1, replicate 256 2]"
  define P where "P = fst (selection_projections m sel)"
  have m: "constructed cfg m" unfolding m_def cfg_def by (rule constructed_source_keep)
  note f = constructed_fields[OF m]
  have cfg: "config.n_embd cfg = 256" "config.n_head cfg = 16" "config.ctx_len cfg = 2048"
    by (simp_all add: cfg_def source_config_def)
  have keep: "attn.num_tokens_to_keep m = 2"
    by (simp add: m_def cfg_def constant_attn_def Attn_attributes_def source_config_def Let_def)
  have scorer: "importance_scorer m = replicate 1 (replicate 256 1)"
    by (simp add: m_def cfg_def constant_attn_def Attn_attributes_def source_config_def Let_def)
  have selk: "selection_k m = replicate (16 * 96) (replicate 256 1)"
    by (simp add: m_def cfg_def constant_attn_def Attn_attributes_def source_config_def Let_def)
  have scores: "map (Linear (importance_scorer m)) x = [[0], [256], [512]]"
    by (simp add: x_def scorer Linear_single)
  have s1: "select_important_tokens m x (map (Linear (importance_scorer m)) x) = Inr (sel, [1, 2])"
    unfolding scores
    by (simp add: select_important_tokens_def x_def sel_def keep topk_def gather_def Let_def
        ebind_def upt_rec)
  have "min (attn.num_tokens_to_keep m) (length x) \<le> attn.ctx_len m"
    by (simp add: keep x_def f cfg)
  from selection_branch_eq[OF m refl this]
  obtain st si where a: "select_important_tokens m x (map (Linear (importance_scorer m)) x) = Inr (st, si)"
    and b: "selection_branch m x =
      Inr (spec_rope_keys_at m [0 ..< length si] (fst (selection_projections m st)),
           snd (selection_projections m st), si)"
    by blast
  from a s1 have "st = sel" "si = [1, 2]" by simp_all
  with b have actual: "selection_branch m x =
      Inr (spec_rope_keys_at m [0, 1] P, snd (selection_projections m sel), [1, 2])"
    by (simp add: P_def upt_rec)
  have Ph: "length P = 16"
    by (simp add: P_def selection_projections_def length_view_heads f cfg)
  have P00: "P ! 0 ! 0 = replicate 96 256"
    by (simp add: P_def selection_projections_def view_heads_nth f cfg sel_def selk
        Linear_replicate)
  have P0: "length (P ! 0) = 2"
    by (simp add: P_def selection_projections_def view_heads_def f cfg sel_def)
  have row: "length (P ! 0 ! 0) = nope_head_dim m + 2 * 32" by (simp add: P00 f)
  have e0: "spec_rope_keys_at m [0, 1] P ! 0 ! 0 ! (nope_head_dim m + 0) = 256"
    using spec_rope_keys_at_entry[of 0 P 0 "[0, 1]" m 32 0, OF _ _ _ row]
    by (simp add: Ph P0 P00 f cfg precompute_nth)
  have e1: "spec_rope_keys_at m [1, 2] P ! 0 ! 0 ! (nope_head_dim m + 0) = 256 * cos 1 - 256 * sin 1"
    using spec_rope_keys_at_entry[of 0 P 0 "[1, 2]" m 32 0, OF _ _ _ row]
    by (simp add: Ph P0 P00 f cfg precompute_nth)
  have "spec_rope_keys_at m [0, 1] P \<noteq> spec_rope_keys_at m [1, 2] P"
  proof
    assume "spec_rope_keys_at m [0, 1] P = spec_rope_keys_at m [1, 2] P"
    then have "(256::real) = 256 * cos 1 - 256 * sin 1" using e0 e1 by simp
    then have "cos (1::real) - sin 1 = 1" by simp
    then show False using cos_minus_sin_one by simp
  qed
  then have "selection_branch m x \<noteq>
      Inr (spec_rope_keys_at m [1, 2] P, snd (selection_projections m sel), [1, 2])"
    by (simp add: actual)
  then show ?thesis
    using s1 by (simp add: m_def cfg_def x_def sel_def P_def)
qed

section \<open>The window branch\<close>

lemma length_spec_rope_keys_at_head:
  assumes "h < length k" "length (k ! h) = S" "length ps = S"
  shows "length (spec_rope_keys_at m ps k ! h) = S"
  using assms by (simp add: spec_rope_keys_at_def spec_rope_at_def)

lemma length_spec_rope_keys_at: "length (spec_rope_keys_at m ps k) = length k"
  by (simp add: spec_rope_keys_at_def)

lemma window_branch_eq:
  assumes m: "constructed cfg m" and T: "length x \<le> attn.ctx_len m"
  shows "window_branch m training x =
           Inr (spec_rope_keys_at m [0 ..< length x]
                  (view_heads (attn.n_head m) (rope_head_dim m + nope_head_dim m)
                     (map (Linear (window_k m)) x)),
                view_heads (attn.n_head m) (v_head_dim m) (map (Linear (window_v m)) x))"
proof -
  note f = constructed_fields[OF m]
  have lk: "length (window_k m) = attn.n_head m * (rope_head_dim m + nope_head_dim m)"
    using f(13) by (simp add: weight_shapes_def shape_def)
  have "list_all (shape (length x) (rope_head_dim m + nope_head_dim m))
          (view_heads (attn.n_head m) (rope_head_dim m + nope_head_dim m)
             (map (Linear (window_k m)) x))"
    by (rule shape_projection_heads[OF lk refl])
  from rope_keys_eq[OF m this T] show ?thesis
    by (simp add: window_branch_def get_sliding_window_tokens_def Let_def ebind_def)
qed

lemma sliding_window_with_position:
  "length (get_sliding_window_tokens m False x (Some pos)) \<le> attn.window_size m"
proof -
  define a where "a = nat (max 0 (pos - int (attn.window_size m div 2)))"
  have "min (length x) (a + attn.window_size m) - a \<le> attn.window_size m" by simp
  then show ?thesis
    by (simp add: get_sliding_window_tokens_def Let_def a_def[symmetric] min.coboundedI2)
qed

text \<open>
  Claim C2 does not hold of the code. \<open>forward\<close> calls the window helper without a position, so
  the helper returns the whole sequence in inference mode as well: with the configuration of
  the source (\<open>window_size = 128\<close>) and 129 input tokens, the window branch builds keys and
  values for all 129 positions in each of the 16 heads. The branch of the helper that cuts
  the window (\<open>sliding_window_with_position\<close> above) is never reached.
\<close>

theorem window_branch_inference_whole_sequence:
  "attn.window_size (constant_attn source_config 1) = 128 \<and>
   (\<exists>k_window v_window.
      window_branch (constant_attn source_config 1) False (replicate 129 (replicate 256 1)) =
        Inr (k_window, v_window) \<and>
      length k_window = 16 \<and> length v_window = 16 \<and>
      list_all (\<lambda>kh. length kh = 129) k_window \<and>
      list_all (\<lambda>vh. length vh = 129) v_window)"
proof -
  define m where "m = constant_attn source_config 1"
  define x :: mat where "x = replicate 129 (replicate 256 1)"
  have m: "constructed source_config m" unfolding m_def by (rule constructed_source)
  note f = constructed_fields[OF m]
  have cfg: "config.n_head source_config = 16" "config.ctx_len source_config = 2048"
    by (simp_all add: source_config_def)
  have w: "attn.window_size m = 128"
    by (simp add: m_def constant_attn_def Attn_attributes_def source_config_def Let_def)
  have x: "length x = 129" by (simp add: x_def)
  have T: "length x \<le> attn.ctx_len m" by (simp add: x f cfg)
  let ?k = "spec_rope_keys_at m [0 ..< length x]
              (view_heads (attn.n_head m) (rope_head_dim m + nope_head_dim m)
                 (map (Linear (window_k m)) x))"
  let ?v = "view_heads (attn.n_head m) (v_head_dim m) (map (Linear (window_v m)) x)"
  have r: "window_branch m False x = Inr (?k, ?v)" by (rule window_branch_eq[OF m T])
  have lk: "length ?k = 16" by (simp add: length_spec_rope_keys_at length_view_heads f cfg)
  have lv: "length ?v = 16" by (simp add: length_view_heads f cfg)
  have kk: "list_all (\<lambda>kh. length kh = 129) ?k"
    unfolding list_all_length
  proof (intro allI impI)
    fix h assume "h < length ?k"
    then have h: "h < attn.n_head m" by (simp add: length_spec_rope_keys_at length_view_heads)
    show "length (?k ! h) = 129"
      using h by (subst length_spec_rope_keys_at_head[where S = 129])
        (simp_all add: length_view_heads view_heads_def x)
  qed
  have vv: "list_all (\<lambda>vh. length vh = 129) ?v"
    by (simp add: list_all_length view_heads_def x)
  show ?thesis
    using w r lk lv kk vv unfolding m_def x_def by blast
qed

section \<open>The branch gate\<close>

lemma sum_list_exp_nonneg: "0 \<le> sum_list (map exp (v :: real list))"
  by (induction v) simp_all

lemma sum_list_exp_pos: "v \<noteq> [] \<Longrightarrow> 0 < sum_list (map exp (v :: real list))"
proof (cases v)
  case (Cons a w)
  have "0 < exp a + sum_list (map exp w)"
    using sum_list_exp_nonneg[of w] exp_gt_zero[of a] by linarith
  then show ?thesis using Cons by simp
qed simp

lemma sum_list_map_divide: "sum_list (map (\<lambda>a. f a / c) v) = sum_list (map f v) / (c :: real)"
  by (induction v) (simp_all add: add_divide_distrib)

lemma softmax_props:
  assumes "v \<noteq> []"
  shows "length (softmax v) = length v" "sum_list (softmax v) = 1"
    "\<And>i. i < length v \<Longrightarrow> 0 < softmax v ! i"
proof -
  have z: "0 < sum_list (map exp v)" using assms by (rule sum_list_exp_pos)
  show "length (softmax v) = length v" by (simp add: softmax_def)
  show "sum_list (softmax v) = 1"
    using z by (simp add: softmax_def sum_list_map_divide)
  show "\<And>i. i < length v \<Longrightarrow> 0 < softmax v ! i"
    using z by (simp add: softmax_def)
qed





section \<open>The inference cache\<close>



























section \<open>Independence of the token compressor\<close>

lemma queries_ignores:
  "queries (m\<lparr>block_compressor := bc, intra_block_pos_encoding := pe\<rparr>) x = queries m x"
  by (simp add: queries_def)

lemma branch_weights_ignores:
  "branch_weights (m\<lparr>block_compressor := bc, intra_block_pos_encoding := pe\<rparr>) x = branch_weights m x"
  by (simp add: branch_weights_def)

lemma global_branch_ignores:
  "global_branch (m\<lparr>block_compressor := bc, intra_block_pos_encoding := pe\<rparr>) x v1 = global_branch m x v1"
  by (simp add: global_branch_def cong: option.case_cong)

lemma rope_keys_ignores:
  "rope_keys (m\<lparr>block_compressor := bc, intra_block_pos_encoding := pe\<rparr>) k = rope_keys m k"
  by (simp add: rope_keys_def)

lemma select_important_tokens_ignores:
  "select_important_tokens (m\<lparr>block_compressor := bc, intra_block_pos_encoding := pe\<rparr>) x s =
   select_important_tokens m x s"
  by (simp add: select_important_tokens_def)

lemma selection_projections_ignores:
  "selection_projections (m\<lparr>block_compressor := bc, intra_block_pos_encoding := pe\<rparr>) t =
   selection_projections m t"
  by (simp add: selection_projections_def)

lemma selection_branch_ignores:
  "selection_branch (m\<lparr>block_compressor := bc, intra_block_pos_encoding := pe\<rparr>) x = selection_branch m x"
  by (simp add: selection_branch_def select_important_tokens_ignores selection_projections_ignores
      rope_keys_ignores)

lemma get_sliding_window_tokens_ignores:
  "get_sliding_window_tokens (m\<lparr>block_compressor := bc, intra_block_pos_encoding := pe\<rparr>) tr x p =
   get_sliding_window_tokens m tr x p"
  by (simp add: get_sliding_window_tokens_def cong: option.case_cong if_cong)

lemma window_branch_ignores:
  "window_branch (m\<lparr>block_compressor := bc, intra_block_pos_encoding := pe\<rparr>) tr x = window_branch m tr x"
  by (simp add: window_branch_def get_sliding_window_tokens_ignores rope_keys_ignores)

lemma cache_update_ignores:
  "cache_update (m\<lparr>block_compressor := bc, intra_block_pos_encoding := pe\<rparr>) c B T k v =
   cache_update m c B T k v"
  by (simp add: cache_update_def cong: option.case_cong prod.case_cong if_cong)

lemma read_fields_ignore:
  "attn.n_embd (m\<lparr>block_compressor := bc, intra_block_pos_encoding := pe\<rparr>) = attn.n_embd m"
  "attn.dropout (m\<lparr>block_compressor := bc, intra_block_pos_encoding := pe\<rparr>) = attn.dropout m"
  "proj (m\<lparr>block_compressor := bc, intra_block_pos_encoding := pe\<rparr>) = proj m"
  by simp_all

lemma forward_ignores:
  "forward (m\<lparr>block_compressor := bc, intra_block_pos_encoding := pe\<rparr>) training dr c x v1 =
   forward m training dr c x v1"
  unfolding forward_def queries_ignores branch_weights_ignores global_branch_ignores
      selection_branch_ignores window_branch_ignores cache_update_ignores read_fields_ignore
  by (rule refl)

lemma run_ignores:
  "run (m\<lparr>block_compressor := bc, intra_block_pos_encoding := pe\<rparr>) c calls = run m c calls"
  by (induction calls arbitrary: c) (auto simp: forward_ignores split: sum.splits)

text \<open>
  Claim C10. Two module instances that differ only in \<open>block_compressor\<close> and
  \<open>intra_block_pos_encoding\<close> give the same result of \<open>forward\<close> (output, \<^verbatim>\<open>value_1\<close> and cache,
  or the same error) on every input, in both modes, from every cache and with the same
  random draws, and the same cache after every session: no block of \<open>forward\<close> reads the two
  fields, and \<open>compress_tokens\<close>, which reads them, is not called.
\<close>

theorem forward_independent_of_block_compressor:
  "forward (m\<lparr>block_compressor := bc, intra_block_pos_encoding := pe\<rparr>) training dr c x v1 =
     forward m training dr c x v1 \<and>
   run (m\<lparr>block_compressor := bc, intra_block_pos_encoding := pe\<rparr>) c calls = run m c calls"
  by (simp add: forward_ignores run_ignores)

theorem forward_independent_of_block_compressor_witness:
  "forward ((constant_attn source_config 1)\<lparr>block_compressor := ([[2]], [[3]]),
                                            intra_block_pos_encoding := [[5]]\<rparr>)
     False
     \<lparr>attn_keep_1 = (\<lambda>_ _ _ _. True), attn_keep_2 = (\<lambda>_ _ _ _. True),
      attn_keep_3 = (\<lambda>_ _ _ _. True), res_keep = (\<lambda>_ _ _. True)\<rparr>
     initial_cache [[replicate 256 1]] None =
   forward (constant_attn source_config 1) False
     \<lparr>attn_keep_1 = (\<lambda>_ _ _ _. True), attn_keep_2 = (\<lambda>_ _ _ _. True),
      attn_keep_3 = (\<lambda>_ _ _ _. True), res_keep = (\<lambda>_ _ _. True)\<rparr>
     initial_cache [[replicate 256 1]] None"
  by (rule forward_independent_of_block_compressor[where calls = "[]", THEN conjunct1])

section \<open>The expert router\<close>

lemma sum_list_update_add:
  "i < length rw \<Longrightarrow> sum_list (rw[i := rw ! i + v]) = sum_list rw + (v :: real)"
  by (induction rw arbitrary: i) (auto split: nat.splits)

lemma filter_update_le:
  "length (filter P (rw[i := x])) \<le> Suc (length (filter P rw))"
  by (induction rw arbitrary: i) (auto split: nat.splits)

lemma scatter_add_ok:
  assumes "list_all (\<lambda>i. i < length rw) idx" "length src = length idx"
  shows "\<exists>rw'. scatter_add rw idx src = Inr rw' \<and> length rw' = length rw \<and>
           sum_list rw' = sum_list rw + sum_list src \<and>
           (\<forall>j. j \<notin> set idx \<longrightarrow> rw' ! j = rw ! j) \<and>
           length (filter (\<lambda>w. w \<noteq> 0) rw') \<le> length (filter (\<lambda>w. w \<noteq> 0) rw) + length idx"
  using assms
proof (induction rw idx src rule: scatter_add.induct)
  case (1 rw src)
  then show ?case by simp
next
  case (2 rw i idx)
  then show ?case by simp
next
  case (3 rw i idx v src)
  let ?rw = "rw[i := rw ! i + v]"
  have i: "i < length rw" using "3.prems" by simp
  have "list_all (\<lambda>i. i < length ?rw) idx" "length src = length idx"
    using "3.prems" by simp_all
  from "3.IH"[OF i this] obtain rw' where r: "scatter_add ?rw idx src = Inr rw'"
    "length rw' = length ?rw" "sum_list rw' = sum_list ?rw + sum_list src"
    "\<forall>j. j \<notin> set idx \<longrightarrow> rw' ! j = ?rw ! j"
    "length (filter (\<lambda>w. w \<noteq> 0) rw') \<le> length (filter (\<lambda>w. w \<noteq> 0) ?rw) + length idx"
    by blast
  have "scatter_add rw (i # idx) (v # src) = Inr rw'" using i r(1) by simp
  moreover have "length rw' = length rw" using r(2) by simp
  moreover have "sum_list rw' = sum_list rw + sum_list (v # src)"
    using r(3) sum_list_update_add[OF i, of v] by simp
  moreover have "\<forall>j. j \<notin> set (i # idx) \<longrightarrow> rw' ! j = rw ! j"
    using r(4) by auto
  moreover have "length (filter (\<lambda>w. w \<noteq> 0) rw') \<le>
                 length (filter (\<lambda>w. w \<noteq> 0) rw) + length (i # idx)"
    using r(5) filter_update_le[of "\<lambda>w. w \<noteq> 0" rw i "rw ! i + v"] by simp
  ultimately show ?case by blast
qed

lemma scatter_add_head:
  assumes "scatter_add rw (i # idx) (v # src) = Inr rw'" "i \<notin> set idx"
    "list_all (\<lambda>j. j < length rw) idx" "length src = length idx"
  shows "rw' ! i = rw ! i + v"
proof -
  have i: "i < length rw" using assms(1) by (auto split: if_splits)
  let ?rw = "rw[i := rw ! i + v]"
  have "list_all (\<lambda>j. j < length ?rw) idx" using assms(3) by simp
  from scatter_add_ok[OF this assms(4)] obtain r where
    "scatter_add ?rw idx src = Inr r" "\<forall>j. j \<notin> set idx \<longrightarrow> r ! j = ?rw ! j" by blast
  moreover have "scatter_add ?rw idx src = Inr rw'" using assms(1) i by simp
  ultimately show ?thesis using assms(2) i by auto
qed

lemma scatter_loop_eq:
  assumes "length vals = length idx" "i \<le> length idx"
  shows "scatter_loop rw idx vals [i ..< length idx] = scatter_add rw (drop i idx) (drop i vals)"
  using assms
proof (induction "length idx - i" arbitrary: i rw)
  case 0
  then show ?case by simp
next
  case (Suc n)
  then have i: "i < length idx" by simp
  have up: "[i ..< length idx] = i # [Suc i ..< length idx]"
    using i by (simp add: upt_rec)
  have di: "drop i idx = idx ! i # drop (Suc i) idx" "drop i vals = vals ! i # drop (Suc i) vals"
    using i Suc.prems by (simp_all add: Cons_nth_drop_Suc)
  have IH: "\<And>rw. scatter_loop rw idx vals [Suc i ..< length idx] =
              scatter_add rw (drop (Suc i) idx) (drop (Suc i) vals)"
    using Suc.hyps(1)[of "Suc i"] Suc.hyps(2) Suc.prems i by simp
  show ?case
    unfolding up
    by (simp add: IH ebind_def di)
qed

lemma sum_list_map_scale:
  "sum_list (map (\<lambda>a. a * c / d) xs) = sum_list xs * c / (d :: real)"
  by (induction xs) (simp_all add: add_divide_distrib distrib_right)

lemma sum_list_pos:
  assumes "xs \<noteq> []" "\<And>a. a \<in> set xs \<Longrightarrow> 0 < (a :: real)"
  shows "0 < sum_list xs"
  using assms
proof (induction xs)
  case Nil
  then show ?case by simp
next
  case (Cons a xs)
  show ?case
  proof (cases "xs = []")
    case True
    then show ?thesis using Cons.prems by simp
  next
    case False
    then have "0 < sum_list xs" using Cons by simp
    moreover have "0 < a" using Cons.prems by simp
    ultimately show ?thesis by simp
  qed
qed

lemma router_weights_row_spec:
  assumes n: "2 \<le> num_exp l" "num_exp l \<le> num_experts l"
    and g: "length g = num_experts l - 1"
    and b: "length (expert_bias l) = num_experts l - 1"
  shows "(selected_sum l g \<noteq> 0 \<longrightarrow>
            (\<exists>rw. router_weights_row l g = Inr rw \<and> length rw = num_experts l \<and>
                  sum_list rw = 1 \<and>
                  length (filter (\<lambda>w. w \<noteq> 0) rw) \<le> num_exp l \<and>
                  rw ! 0 = 1 / real (num_exp l))) \<and>
         (selected_sum l g = 0 \<longrightarrow> router_weights_row l g = Inl NonFinite)"
proof -
  define biased where "biased = map2 (+) g (expert_bias l)"
  define k where "k = num_exp l - 1"
  have bc: "broadcast (+) g (expert_bias l) = Inr biased"
    using g b by (simp add: broadcast_same biased_def)
  have lb: "length biased = num_experts l - 1" using g b by (simp add: biased_def)
  have k: "k \<le> length biased" "1 \<le> k" "Suc k = num_exp l" using n lb by (simp_all add: k_def)
  obtain vals idx where t: "topk biased k = Inr (vals, idx)" and li: "length idx = k"
    and di: "distinct idx" and si: "set idx \<subseteq> {0 ..< length biased}"
    and vi: "vals = map ((!) biased) idx"
    using topk_indices[OF k(1)] by blast
  have lv: "length vals = k" using vi li by simp
  have ne: "vals \<noteq> []" using lv k(2) by auto
  have ss: "selected_sum l g = sum_list vals"
    unfolding selected_sum_def biased_def[symmetric] k_def[symmetric] t by simp
  have n0: "num_exp l \<noteq> 0" using n by simp
  have zero: "router_weights_row l g = Inl NonFinite" if "sum_list vals = 0"
    unfolding router_weights_row_def bc k_def[symmetric]
    using that ne n0 t by (simp add: ebind_def)
  have nonzero: "\<exists>rw. router_weights_row l g = Inr rw \<and> length rw = num_experts l \<and>
                  sum_list rw = 1 \<and>
                  length (filter (\<lambda>w. w \<noteq> 0) rw) \<le> num_exp l \<and>
                  rw ! 0 = 1 / real (num_exp l)" if S: "sum_list vals \<noteq> 0"
  proof -
    define gv1 where "gv1 = map (\<lambda>a. a / sum_list vals) vals"
    define gv2 where "gv2 = (1 / real (num_exp l)) # map (\<lambda>a. a * real k / real (num_exp l)) gv1"
    define idx2 where "idx2 = 0 # map Suc idx"
    have l1: "length gv1 = k" by (simp add: gv1_def lv)
    have s1: "sum_list gv1 = 1"
      using S sum_list_map_divide[of "\<lambda>a. a" "sum_list vals" vals] by (simp add: gv1_def)
    have t1: "take (Suc 0) gv1 = [hd gv1]" using l1 k(2) by (cases gv1) simp_all
    have t2: "take (Suc 0) idx = [hd idx]" using li k(2) by (cases idx) simp_all
    have shared: "map (\<lambda>_. 1 / real (num_exp l)) (take (Suc 0) gv1) = [1 / real (num_exp l)]"
      by (simp add: t1)
    have l2: "length gv2 = length idx2" "length idx2 = num_exp l"
      by (simp_all add: gv2_def idx2_def l1 li k(3))
    have row: "router_weights_row l g =
                 scatter_loop (replicate (num_experts l) 0) idx2 gv2 [0 ..< length idx2]"
      unfolding router_weights_row_def bc k_def[symmetric]
      using S n0 t
      by (simp add: ebind_def Let_def gv1_def[symmetric] shared t2 gv2_def idx2_def l2 li k(3))
    have loop: "scatter_loop (replicate (num_experts l) 0) idx2 gv2 [0 ..< length idx2] =
                scatter_add (replicate (num_experts l) 0) idx2 gv2"
      using scatter_loop_eq[OF l2(1), of 0] by simp
    have inb: "list_all (\<lambda>i. i < length (replicate (num_experts l) (0 :: real))) idx2"
      using si lb n by (auto simp: idx2_def list_all_iff)
    obtain rw where rw: "scatter_add (replicate (num_experts l) 0) idx2 gv2 = Inr rw"
      and lr: "length rw = length (replicate (num_experts l) (0 :: real))"
      and sr: "sum_list rw = sum_list (replicate (num_experts l) 0) + sum_list gv2"
      and fr: "length (filter (\<lambda>w. w \<noteq> 0) rw) \<le>
                 length (filter (\<lambda>w. w \<noteq> 0) (replicate (num_experts l) (0 :: real))) + length idx2"
      using scatter_add_ok[OF inb l2(1)] by blast
    have nk: "real (num_exp l) = real k + 1" unfolding k(3)[symmetric] by simp
    have "sum_list gv2 = 1 / real (num_exp l) + real k / real (num_exp l)"
      by (simp add: gv2_def sum_list_map_scale s1)
    also have "\<dots> = 1" using nk n0 by (simp add: add_divide_distrib[symmetric])
    finally have sum1: "sum_list rw = 1" using sr by (simp add: sum_list_replicate)
    have cnt: "length (filter (\<lambda>w. w \<noteq> 0) rw) \<le> num_exp l"
      using fr l2(2) by simp
    have inb': "list_all (\<lambda>j. j < length (replicate (num_experts l) (0 :: real))) (map Suc idx)"
      using inb by (simp add: idx2_def)
    have "rw ! 0 = replicate (num_experts l) 0 ! 0 + 1 / real (num_exp l)"
      by (rule scatter_add_head[OF rw[unfolded idx2_def gv2_def] _ inb'])
        (auto simp: l1 li)
    moreover have "0 < num_experts l" using n by simp
    ultimately have r0: "rw ! 0 = 1 / real (num_exp l)" by simp
    show ?thesis using row loop rw lr sum1 cnt r0 by simp
  qed
  show ?thesis using zero nonzero ss by simp
qed

lemma selected_sum_pos:
  assumes n: "2 \<le> num_exp l" "num_exp l \<le> num_experts l"
    and g: "length g = num_experts l - 1"
    and b: "length (expert_bias l) = num_experts l - 1"
    and gp: "list_all (\<lambda>a. 0 < a) g" and bp: "list_all (\<lambda>a. 0 \<le> a) (expert_bias l)"
  shows "0 < selected_sum l g"
proof -
  define biased where "biased = map2 (+) g (expert_bias l)"
  define k where "k = num_exp l - 1"
  have lb: "length biased = num_experts l - 1" using g b by (simp add: biased_def)
  have k: "k \<le> length biased" "1 \<le> k" using n lb by (simp_all add: k_def)
  obtain vals idx where t: "topk biased k = Inr (vals, idx)" and li: "length idx = k"
    and si: "set idx \<subseteq> {0 ..< length biased}" and vi: "vals = map ((!) biased) idx"
    using topk_indices[OF k(1)] by blast
  have pos: "0 < biased ! i" if "i < length biased" for i
  proof -
    have "0 < g ! i" "0 \<le> expert_bias l ! i"
      using that gp bp g b lb by (simp_all add: list_all_length)
    then show ?thesis using that g b lb by (simp add: biased_def)
  qed
  have "vals \<noteq> []" using vi li k(2) by auto
  moreover have "0 < a" if "a \<in> set vals" for a
    using that vi si pos by auto
  ultimately have "0 < sum_list vals" by (rule sum_list_pos)
  then show ?thesis
    unfolding selected_sum_def biased_def[symmetric] k_def[symmetric] t by simp
qed

lemma gate_forward_pos:
  assumes "gate l \<noteq> []"
  shows "length (gate_forward l training noise x) = length (gate l)"
    "list_all (\<lambda>a. 0 < a) (gate_forward l training noise x)"
proof -
  define z where "z = UnitCenteredNoise (2 / 100) training noise (Linear (gate l) x)"
  have lz: "length z = length (gate l)" by (simp add: z_def UnitCenteredNoise_def length_Linear)
  then have ne: "z \<noteq> []" using assms by auto
  have gf: "gate_forward l training noise x = softmax z"
    unfolding gate_forward_def z_def by (rule refl)
  show "length (gate_forward l training noise x) = length (gate l)"
    unfolding gf using softmax_props(1)[OF ne] lz by simp
  show "list_all (\<lambda>a. 0 < a) (gate_forward l training noise x)"
    unfolding gf using softmax_props(1,3)[OF ne] by (simp add: list_all_length)
qed

text \<open>
  Claim C5 (amended). For a layer with \<open>2 \<le> num_exp \<le> num_experts\<close> whose gate and bias have
  \<open>num_experts - 1\<close> entries, and for every token, mode and noise draw: when the selected
  biased gate values do not sum to zero, the row of router weights has \<open>num_experts\<close> entries
  that sum to 1, at most \<open>num_exp\<close> of them are nonzero, and entry 0, the shared expert, is
  \<open>1 / num_exp\<close>. When they sum to zero, the normalisation of line 365 divides by zero and the
  row has no finite value. A bias without negative entries, such as the initial zero bias,
  excludes the second case.
\<close>

theorem router_weights_row_normalised:
  assumes "2 \<le> num_exp l" and "num_exp l \<le> num_experts l"
    and "length (gate l) = num_experts l - 1"
    and "length (expert_bias l) = num_experts l - 1"
  shows "(selected_sum l (gate_forward l training noise x) \<noteq> 0 \<longrightarrow>
            (\<exists>rw. router_weights_row l (gate_forward l training noise x) = Inr rw \<and>
                  length rw = num_experts l \<and> sum_list rw = 1 \<and>
                  length (filter (\<lambda>w. w \<noteq> 0) rw) \<le> num_exp l \<and>
                  rw ! 0 = 1 / real (num_exp l))) \<and>
         (selected_sum l (gate_forward l training noise x) = 0 \<longrightarrow>
            router_weights_row l (gate_forward l training noise x) = Inl NonFinite) \<and>
         (list_all (\<lambda>a. 0 \<le> a) (expert_bias l) \<longrightarrow>
            selected_sum l (gate_forward l training noise x) \<noteq> 0)"
proof -
  have ne: "gate l \<noteq> []" using assms by auto
  note gf = gate_forward_pos[OF ne, of training noise x]
  have lg: "length (gate_forward l training noise x) = num_experts l - 1"
    using gf(1) assms(3) by simp
  have "list_all (\<lambda>a. 0 \<le> a) (expert_bias l) \<longrightarrow>
          selected_sum l (gate_forward l training noise x) \<noteq> 0"
    using selected_sum_pos[OF assms(1,2) lg assms(4) gf(2)] by auto
  then show ?thesis
    using router_weights_row_spec[OF assms(1,2) lg assms(4)] by blast
qed

lemma gate_forward_zero_gate:
  "gate l = replicate 31 (replicate 256 0) \<Longrightarrow>
   gate_forward l False noise (replicate 256 1) = replicate 31 (1 / 31)"
  by (simp add: gate_forward_def UnitCenteredNoise_def Linear_replicate softmax_def
      sum_list_replicate)

lemma DSMoE_init_constant:
  "config.n_experts cfg \<noteq> 0 \<Longrightarrow>
   DSMoE_init cfg n (constant_dsmoe cfg n a bias) =
     Inr (constant_dsmoe cfg n a (replicate (config.n_experts cfg - 1) 0))"
  by (simp add: DSMoE_init_def constant_dsmoe_def Let_def)

lemma constant_dsmoe_source:
  "num_exp (constant_dsmoe source_config 4 a bias) = 4"
  "num_experts (constant_dsmoe source_config 4 a bias) = 32"
  "expert_bias (constant_dsmoe source_config 4 a bias) = bias"
  "gate (constant_dsmoe source_config 4 a bias) = replicate 31 (replicate 256 a)"
  by (simp_all add: constant_dsmoe_def source_config_def Let_def)

theorem router_weights_row_normalised_witness:
  "DSMoE_init source_config 4 (constant_dsmoe source_config 4 0 []) =
     Inr (constant_dsmoe source_config 4 0 (replicate 31 0)) \<and>
   (\<exists>rw. router_weights_row (constant_dsmoe source_config 4 0 (replicate 31 0))
           (gate_forward (constant_dsmoe source_config 4 0 (replicate 31 0))
              False (\<lambda>_. 0) (replicate 256 1)) = Inr rw \<and>
         length rw = 32 \<and> sum_list rw = 1 \<and>
         length (filter (\<lambda>w. w \<noteq> 0) rw) \<le> 4 \<and> rw ! 0 = 1 / 4)"
proof -
  define l where "l = constant_dsmoe source_config 4 0 (replicate 31 0)"
  have i: "DSMoE_init source_config 4 (constant_dsmoe source_config 4 0 []) = Inr l"
    using DSMoE_init_constant[of source_config 4 0 "[]"] by (simp add: l_def source_config_def)
  have f: "num_exp l = 4" "num_experts l = 32" "expert_bias l = replicate 31 0"
    "gate l = replicate 31 (replicate 256 0)"
    by (simp_all add: l_def constant_dsmoe_source)
  have h: "2 \<le> num_exp l" "num_exp l \<le> num_experts l"
    "length (gate l) = num_experts l - 1" "length (expert_bias l) = num_experts l - 1"
    by (simp_all add: f)
  have nn: "list_all (\<lambda>a. 0 \<le> a) (expert_bias l)" by (simp add: f list_all_iff)
  note t = router_weights_row_normalised[OF h, of False "\<lambda>_. 0" "replicate 256 1"]
  from t nn have "selected_sum l (gate_forward l False (\<lambda>_. 0) (replicate 256 1)) \<noteq> 0" by blast
  with t obtain rw where
    "router_weights_row l (gate_forward l False (\<lambda>_. 0) (replicate 256 1)) = Inr rw"
    "length rw = num_experts l" "sum_list rw = 1"
    "length (filter (\<lambda>w. w \<noteq> 0) rw) \<le> num_exp l" "rw ! 0 = 1 / real (num_exp l)"
    by blast
  then have "\<exists>rw. router_weights_row l (gate_forward l False (\<lambda>_. 0) (replicate 256 1)) = Inr rw \<and>
         length rw = 32 \<and> sum_list rw = 1 \<and>
         length (filter (\<lambda>w. w \<noteq> 0) rw) \<le> 4 \<and> rw ! 0 = 1 / 4"
    by (simp add: f)
  then show ?thesis using i unfolding l_def by simp
qed

text \<open>
  Claim C5 as stated fails. In a layer of the source configuration (32 experts, \<open>num_exp = 4\<close>)
  with all gate weights 0 and every bias entry \<open>- 1 / 31\<close>, each gate value is \<open>1 / 31\<close> and each
  biased value is 0: the three selected values sum to 0, and the row is \<open>nan\<close>, not a row of
  sum 1.
\<close>

theorem router_weights_row_zero_sum_counterexample:
  "router_weights_row (constant_dsmoe source_config 4 0 (replicate 31 (- (1 / 31))))
     (gate_forward (constant_dsmoe source_config 4 0 (replicate 31 (- (1 / 31))))
        False (\<lambda>_. 0) (replicate 256 1))
   = Inl NonFinite"
proof -
  define l where "l = constant_dsmoe source_config 4 0 (replicate 31 (- (1 / 31)))"
  have f: "num_exp l = 4" "num_experts l = 32" "expert_bias l = replicate 31 (- (1 / 31))"
    "gate l = replicate 31 (replicate 256 0)"
    by (simp_all add: l_def constant_dsmoe_source)
  define g where "g = gate_forward l False (\<lambda>_. 0) (replicate 256 1)"
  have g: "g = replicate 31 (1 / 31)"
    unfolding g_def by (rule gate_forward_zero_gate[OF f(4)])
  have biased: "map2 (+) g (expert_bias l) = replicate 31 0"
    by (simp add: g f zip_replicate)
  obtain vals idx where t: "topk (replicate 31 (0 :: real)) 3 = Inr (vals, idx)"
    and si: "set idx \<subseteq> {0 ..< length (replicate 31 (0 :: real))}"
    and vi: "vals = map ((!) (replicate 31 (0 :: real))) idx"
    using topk_indices[of 3 "replicate 31 (0 :: real)"] by auto
  have "\<And>a. a \<in> set vals \<Longrightarrow> a = 0" using vi si by auto
  then have "sum_list vals = 0" by (induction vals) simp_all
  moreover have "num_exp l - 1 = 3" by (simp add: f)
  ultimately have z: "selected_sum l g = 0"
    unfolding selected_sum_def biased by (simp add: t)
  have "router_weights_row l g = Inl NonFinite"
    using router_weights_row_spec[of l g] z by (simp add: f g)
  then show ?thesis unfolding g_def l_def .
qed

section \<open>The bias balancer\<close>








end
